theory Spec2Isabelle
  imports Complex_Main "HOL-Library.Word"
begin

section \<open>JavaScript values used by the chat interface\<close>

text \<open>
  A JavaScript string is a sequence of UTF-16 code units: \<open>length\<close>, \<open>slice\<close> and
  \<open>substring\<close> count code units. The string literals of the source are ASCII and are
  written \<open>str ''...''\<close>; other characters are given by their code unit.
\<close>

type_synonym jstring = "16 word list"

definition str :: "string \<Rightarrow> jstring" where
  "str s = map of_char s"

text \<open>\<open>String.prototype.trim\<close> removes white space and line terminators at both ends.\<close>

definition isWhiteSpace :: "16 word \<Rightarrow> bool" where
  "isWhiteSpace c =
     (c \<in> set [0x09, 0x0A, 0x0B, 0x0C, 0x0D, 0x20, 0xA0, 0x1680, 0x2028, 0x2029,
                0x202F, 0x205F, 0x3000, 0xFEFF]
      \<or> (0x2000 \<le> c \<and> c \<le> 0x200A))"

definition trim :: "jstring \<Rightarrow> jstring" where
  "trim s = rev (dropWhile isWhiteSpace (rev (dropWhile isWhiteSpace s)))"

text \<open>\<open>s.split(sep)\<close> for a one-character separator; the result is never empty.\<close>

fun split :: "16 word \<Rightarrow> jstring \<Rightarrow> jstring list" where
  "split sep [] = [[]]"
| "split sep (c # cs) =
     (if c = sep then [] # split sep cs
      else (case split sep cs of [] \<Rightarrow> [[c]] | p # ps \<Rightarrow> (c # p) # ps))"

text \<open>\<open>xs.join(sep)\<close>.\<close>

fun join :: "jstring \<Rightarrow> jstring list \<Rightarrow> jstring" where
  "join sep [] = []"
| "join sep [x] = x"
| "join sep (x # y # ys) = x @ sep @ join sep (y # ys)"

text \<open>
  \<open>s.endsWith(t)\<close>, \<open>s.slice(0, n)\<close> and \<open>s.substring(0, n)\<close> for a constant
  \<open>n \<ge> 0\<close>.
\<close>

definition endsWith :: "jstring \<Rightarrow> jstring \<Rightarrow> bool" where
  "endsWith s t = (length t \<le> length s \<and> drop (length s - length t) s = t)"

definition slice0 :: "nat \<Rightarrow> jstring \<Rightarrow> jstring" where
  "slice0 n s = take n s"

text \<open>Decimal rendering of a non-negative integer, as a template literal prints it.\<close>

definition digit :: "nat \<Rightarrow> 16 word" where
  "digit d = of_nat (48 + d)"

fun decimal :: "nat \<Rightarrow> jstring" where
  "decimal n = (if n < 10 then [digit n] else decimal (n div 10) @ [digit (n mod 10)])"

text \<open>
  The last two, three, four and six decimal digits of a number: the fields of a printed
  date, which are below 100, 1000, 10000 and 1000000, with their zeros in front.
\<close>

definition two_digits :: "nat \<Rightarrow> jstring" where
  "two_digits n = [digit (n div 10 mod 10), digit (n mod 10)]"

definition three_digits :: "nat \<Rightarrow> jstring" where
  "three_digits n = digit (n div 100 mod 10) # two_digits n"

definition four_digits :: "nat \<Rightarrow> jstring" where
  "four_digits n = digit (n div 1000 mod 10) # three_digits n"

definition six_digits :: "nat \<Rightarrow> jstring" where
  "six_digits n = digit (n div 100000 mod 10) # digit (n div 10000 mod 10) # four_digits n"

text \<open>
  \<open>(bytes / 1024).toFixed(1)\<close>: dividing by a power of two is exact, and \<open>toFixed\<close>
  picks the integer \<open>n\<close> with \<open>n / 10\<close> nearest to the quotient, the larger one on a
  tie; so \<open>n\<close> is \<open>\<lfloor>10 * bytes / 1024 + 1 / 2\<rfloor>\<close>.
\<close>

definition kilobytes_toFixed1 :: "nat \<Rightarrow> jstring" where
  "kilobytes_toFixed1 bytes =
     (let n = (20 * bytes + 1024) div 2048
      in decimal (n div 10) @ str ''.'' @ [digit (n mod 10)])"

text \<open>
  A \<open>Date\<close> object holds a time value, the milliseconds since the epoch, or is the
  invalid date. \<open>new Date()\<close> reads the clock; the reading is an argument of every
  operation that takes one.
\<close>

datatype date = Date int | Invalid_Date

text \<open>
  What a timestamp field holds at run time: a \<open>Date\<close> object, or, after
  \<open>JSON.parse\<close>, a string, \<open>null\<close>, or nothing (\<open>undefined\<close>). TypeScript's
  \<open>Date\<close> annotation is erased at run time, so a field read back from storage holds
  a string until the code rebuilds the \<open>Date\<close>.
\<close>

datatype tvalue = T_date date | T_string jstring | T_null | T_undefined

text \<open>
  Library functions of the JavaScript runtime whose full definition is outside the
  repository are arguments of the model: Unicode lower-casing, \<open>JSON.parse\<close> of an
  uploaded file, the printing of a floating-point number, and the printing and parsing
  of dates.
\<close>

record metadata =
  md_headers :: "jstring list option"
  md_rows :: nat
  md_columns :: nat
  md_preview :: "(jstring \<times> jstring) list list option"
  md_totalSize :: "nat option"

record builtins =
  toLowerCase :: "jstring \<Rightarrow> jstring"
  JSON_parse :: "jstring \<Rightarrow> metadata option"
  numberToString :: "real \<Rightarrow> jstring"
  toISOString :: "int \<Rightarrow> jstring"
  Date_parse :: "jstring \<Rightarrow> date"
  toLocaleString :: "date \<Rightarrow> jstring"
  toLocaleTimeString :: "date \<Rightarrow> jstring"

text \<open>
  \<open>new Date(v)\<close> for the value of a timestamp field, the truthiness of such a value,
  and what \<open>JSON.parse (JSON.stringify v)\<close> makes of it: a \<open>Date\<close> is printed by
  \<open>toJSON\<close> (its ISO string, or \<open>null\<close> for the invalid date), and a key whose
  value is \<open>undefined\<close> is left out.
\<close>

definition new_Date :: "builtins \<Rightarrow> tvalue \<Rightarrow> date" where
  "new_Date js v =
     (case v of
        T_date d \<Rightarrow> d
      | T_string s \<Rightarrow> Date_parse js s
      | T_null \<Rightarrow> Date 0
      | T_undefined \<Rightarrow> Invalid_Date)"

definition truthy :: "tvalue \<Rightarrow> bool" where
  "truthy v =
     (case v of
        T_date d \<Rightarrow> True
      | T_string s \<Rightarrow> s \<noteq> []
      | T_null \<Rightarrow> False
      | T_undefined \<Rightarrow> False)"

definition json_tvalue :: "builtins \<Rightarrow> tvalue \<Rightarrow> tvalue" where
  "json_tvalue js v =
     (case v of
        T_date (Date t) \<Rightarrow> T_string (toISOString js t)
      | T_date Invalid_Date \<Rightarrow> T_null
      | T_string s \<Rightarrow> T_string s
      | T_null \<Rightarrow> T_null
      | T_undefined \<Rightarrow> T_undefined)"

text \<open>The toggles read from \<open>import.meta.env\<close> when the services are constructed.\<close>

record config =
  enableRealAPI :: bool
  enableLocalStorage :: bool
  enableFileUpload :: bool

section \<open>File ingestion (fileService.ts)\<close>

text \<open>
  The browser's \<open>File\<close>: its name, MIME type and byte size, and what a
  \<open>FileReader\<close> delivers for it (\<open>None\<close> when the reader reports an error).
\<close>

record File =
  f_name :: jstring
  f_type :: jstring
  f_size :: nat
  f_text :: "jstring option"
  f_dataURL :: "jstring option"

text \<open>
  The record \<open>metadata\<close> above is what \<open>parseCSV\<close> builds; its short form
  \<open>{rows: 0, columns: 0}\<close> has no headers, preview or total size.
\<close>

record ProcessedFile =
  pf_id :: jstring
  pf_name :: jstring
  pf_type :: jstring
  pf_size :: nat
  pf_content :: jstring
  pf_preview :: "jstring option"
  pf_metadata :: "metadata option"
  pf_uploadedAt :: tvalue

text \<open>Every \<open>throw\<close> of \<open>processFile\<close> is a value; \<open>file_error_message\<close> is its text.\<close>

datatype file_error =
    Upload_disabled
  | Size_limit
  | Unsupported_type jstring
  | Process_failed jstring

definition maxFileSize :: nat where
  "maxFileSize = 10 * 1024 * 1024"

definition file_error_message :: "file_error \<Rightarrow> jstring" where
  "file_error_message e =
     (case e of
        Upload_disabled \<Rightarrow> str ''File upload is not enabled''
      | Size_limit \<Rightarrow>
          str ''File size exceeds '' @ decimal (maxFileSize div (1024 * 1024)) @ str ''MB limit''
      | Unsupported_type extension \<Rightarrow>
          str ''File type '' @ extension @ str '' is not supported''
      | Process_failed m \<Rightarrow> str ''Failed to process file: '' @ m)"

definition supportedTypes_text :: "jstring list" where
  "supportedTypes_text = map str [''.txt'', ''.md'', ''.json'', ''.csv'', ''.log'']"

definition supportedTypes_document :: "jstring list" where
  "supportedTypes_document = map str [''.pdf'', ''.doc'', ''.docx'']"

definition supportedTypes_image :: "jstring list" where
  "supportedTypes_image = map str [''.jpg'', ''.jpeg'', ''.png'', ''.gif'', ''.webp'', ''.svg'']"

definition supportedTypes_code :: "jstring list" where
  "supportedTypes_code =
     map str [''.js'', ''.ts'', ''.py'', ''.java'', ''.cpp'', ''.html'', ''.css'', ''.xml'']"

definition isTypeSupported :: "jstring \<Rightarrow> bool" where
  "isTypeSupported extension =
     list_ex (\<lambda>types. extension \<in> set types)
       [supportedTypes_text, supportedTypes_document, supportedTypes_image,
        supportedTypes_code]"

definition isTextFile :: "jstring \<Rightarrow> bool" where
  "isTextFile extension = (extension \<in> set (supportedTypes_text @ supportedTypes_code))"

definition isImageFile :: "jstring \<Rightarrow> bool" where
  "isImageFile extension = (extension \<in> set supportedTypes_image)"

text \<open>The three readers reject with a fixed message when the \<open>FileReader\<close> fails.\<close>

definition readTextFile :: "File \<Rightarrow> jstring + jstring" where
  "readTextFile file =
     (case f_text file of None \<Rightarrow> Inl (str ''Failed to read file'') | Some t \<Rightarrow> Inr t)"

definition processImage :: "File \<Rightarrow> jstring + jstring" where
  "processImage file =
     (case f_dataURL file of
        None \<Rightarrow> Inl (str ''Failed to process image'')
      | Some result \<Rightarrow>
          Inr (str ''Image file: '' @ f_name file @ str '', Size: ''
               @ kilobytes_toFixed1 (f_size file) @ str ''KB, Type: '' @ f_type file))"

definition createImagePreview :: "File \<Rightarrow> jstring + jstring" where
  "createImagePreview file =
     (case f_dataURL file of
        None \<Rightarrow> Inl (str ''Failed to create image preview'')
      | Some result \<Rightarrow> Inr result)"

text \<open>
  \<open>parseCSV\<close>: a row object is built by assigning \<open>obj[headers[index]]\<close> for each
  cell in turn; a cell beyond the header list is stored under the key \<open>undefined\<close>.
\<close>

definition assign :: "jstring \<Rightarrow> jstring \<Rightarrow> (jstring \<times> jstring) list \<Rightarrow> (jstring \<times> jstring) list" where
  "assign k v obj =
     (if k \<in> fst ` set obj then map (\<lambda>(k', v'). if k' = k then (k', v) else (k', v')) obj
      else obj @ [(k, v)])"

fun csv_row :: "jstring list \<Rightarrow> nat \<Rightarrow> jstring list \<Rightarrow> (jstring \<times> jstring) list \<Rightarrow> (jstring \<times> jstring) list" where
  "csv_row headers index [] obj = obj"
| "csv_row headers index (v # values) obj =
     csv_row headers (Suc index) values
       (assign (if index < length headers then headers ! index else str ''undefined'')
          (trim v) obj)"

definition parseCSV :: "jstring \<Rightarrow> metadata" where
  "parseCSV content =
     (let lines = split 0x0A (trim content) in
      if length lines < 2
      then \<lparr>md_headers = None, md_rows = 0, md_columns = 0, md_preview = None,
            md_totalSize = None\<rparr>
      else
        let headers = map trim (split 0x2C (hd lines));
            rows = map (\<lambda>line. csv_row headers 0 (split 0x2C line) []) (tl lines)
        in \<lparr>md_headers = Some headers, md_rows = length rows, md_columns = length headers,
             md_preview = Some (take 5 rows), md_totalSize = Some (length content)\<rparr>)"

text \<open>
  \<open>processFile\<close>. The fresh identifier and the clock reading are arguments. The
  branches are in the order of the source; \<open>.json\<close> and \<open>.csv\<close> are text
  extensions, so their own branches come after the text branch.
\<close>

definition extension_of :: "builtins \<Rightarrow> File \<Rightarrow> jstring" where
  "extension_of js file = str ''.'' @ toLowerCase js (last (split 0x2E (f_name file)))"

definition processFile ::
  "builtins \<Rightarrow> config \<Rightarrow> jstring \<Rightarrow> int \<Rightarrow> File \<Rightarrow> file_error + ProcessedFile" where
  "processFile js cfg new_id now file =
     (if \<not> enableFileUpload cfg then Inl Upload_disabled
      else if f_size file > maxFileSize then Inl Size_limit
      else
        let extension = extension_of js file in
        if \<not> isTypeSupported extension then Inl (Unsupported_type extension)
        else
          let processedFile =
                \<lparr>pf_id = new_id, pf_name = f_name file, pf_type = f_type file,
                 pf_size = f_size file, pf_content = [], pf_preview = None,
                 pf_metadata = None, pf_uploadedAt = T_date (Date now)\<rparr>
          in
          if isTextFile extension then
            (case readTextFile file of
               Inl m \<Rightarrow> Inl (Process_failed m)
             | Inr t \<Rightarrow> Inr (processedFile\<lparr>pf_content := t\<rparr>))
          else if isImageFile extension then
            (case processImage file of
               Inl m \<Rightarrow> Inl (Process_failed m)
             | Inr description \<Rightarrow>
                 (case createImagePreview file of
                    Inl m \<Rightarrow> Inl (Process_failed m)
                  | Inr p \<Rightarrow>
                      Inr (processedFile\<lparr>pf_content := description, pf_preview := Some p\<rparr>)))
          else if extension = str ''.json'' then
            (case readTextFile file of
               Inl m \<Rightarrow> Inl (Process_failed m)
             | Inr t \<Rightarrow> Inr (processedFile\<lparr>pf_content := t, pf_metadata := JSON_parse js t\<rparr>))
          else if extension = str ''.csv'' then
            (case readTextFile file of
               Inl m \<Rightarrow> Inl (Process_failed m)
             | Inr t \<Rightarrow> Inr (processedFile\<lparr>pf_content := t, pf_metadata := Some (parseCSV t)\<rparr>))
          else
            Inr (processedFile
                  \<lparr>pf_content :=
                     str ''['' @ (if f_type file = [] then str ''Unknown'' else f_type file)
                     @ str '' file: '' @ f_name file @ str '']''\<rparr>))"

text \<open>
  \<open>processMultipleFiles\<close>: the loop over the files, with the \<open>try\<close>/\<open>catch\<close>
  around each one. \<open>stamp i\<close> is the identifier and the clock reading generated for
  the file at index \<open>i\<close>. The promise it returns is a sum, as for \<open>processFile\<close>.
\<close>

fun processMultipleFiles_loop ::
  "builtins \<Rightarrow> config \<Rightarrow> (nat \<Rightarrow> jstring \<times> int) \<Rightarrow> nat \<Rightarrow> File list \<Rightarrow>
   ProcessedFile list \<Rightarrow> ProcessedFile list" where
  "processMultipleFiles_loop js cfg stamp i [] results = results"
| "processMultipleFiles_loop js cfg stamp i (file # fileArray) results =
     (case processFile js cfg (fst (stamp i)) (snd (stamp i)) file of
        Inr processed \<Rightarrow>
          processMultipleFiles_loop js cfg stamp (Suc i) fileArray (results @ [processed])
      | Inl error \<Rightarrow> processMultipleFiles_loop js cfg stamp (Suc i) fileArray results)"

definition processMultipleFiles ::
  "builtins \<Rightarrow> config \<Rightarrow> (nat \<Rightarrow> jstring \<times> int) \<Rightarrow> File list \<Rightarrow>
   file_error + ProcessedFile list" where
  "processMultipleFiles js cfg stamp files =
     Inr (processMultipleFiles_loop js cfg stamp 0 files [])"

text \<open>
  The files of a batch whose processing succeeds, each with its own index, in input
  order: what the batch is to return.
\<close>

definition processed_of ::
  "builtins \<Rightarrow> config \<Rightarrow> (nat \<Rightarrow> jstring \<times> int) \<Rightarrow> nat \<times> File \<Rightarrow> ProcessedFile option" where
  "processed_of js cfg stamp p =
     (case processFile js cfg (fst (stamp (fst p))) (snd (stamp (fst p))) (snd p) of
        Inr processed \<Rightarrow> Some processed
      | Inl error \<Rightarrow> None)"

text \<open>Concrete inputs: ASCII lower-casing stands for the runtime's on ASCII names.\<close>

definition ascii_lower :: "jstring \<Rightarrow> jstring" where
  "ascii_lower s = map (\<lambda>c. if 0x41 \<le> c \<and> c \<le> 0x5A then c + 0x20 else c) s"

text \<open>
  The other runtime functions of the examples. \<open>number0\<close> prints the numbers the
  examples hold, 0.7 and the non-negative integers.
\<close>

definition number0 :: "real \<Rightarrow> jstring" where
  "number0 x = (if x = 7 / 10 then str ''0.7'' else decimal (nat \<lfloor>x\<rfloor>))"

text \<open>
  The calendar: year, month and day of a day number counted from 1 January 1970 in
  the proleptic Gregorian calendar, and back. The day number is shifted to count from
  1 March of the year 0, and cut into eras of 400 years, which have 146097 days.
\<close>

definition civil_from_days :: "int \<Rightarrow> int \<times> nat \<times> nat" where
  "civil_from_days days =
     (let z = days + 719468;
          era = z div 146097;
          doe = z - era * 146097;
          yoe = (doe - doe div 1460 + doe div 36524 - doe div 146096) div 365;
          doy = doe - (365 * yoe + yoe div 4 - yoe div 100);
          mp = (5 * doy + 2) div 153;
          d = doy - (153 * mp + 2) div 5 + 1;
          m = (if mp < 10 then mp + 3 else mp - 9)
      in (yoe + era * 400 + (if m \<le> 2 then 1 else 0), nat m, nat d))"

definition days_from_civil :: "int \<Rightarrow> nat \<Rightarrow> nat \<Rightarrow> int" where
  "days_from_civil year m d =
     (let y = year - (if m \<le> 2 then 1 else 0);
          era = y div 400;
          yoe = y - era * 400;
          doy = (153 * (if 2 < m then int m - 3 else int m + 9) + 2) div 5 + int d - 1;
          doe = yoe * 365 + yoe div 4 - yoe div 100 + doy
      in era * 146097 + doe - 719468)"

text \<open>
  \<open>iso0 t\<close> is \<open>toISOString\<close> of the date with time value \<open>t\<close>:
  \<open>YYYY-MM-DDTHH:mm:ss.sssZ\<close> in UTC, the year with a sign and six digits when it
  is outside 0 to 9999.
\<close>

definition iso0 :: "int \<Rightarrow> jstring" where
  "iso0 t =
     (let ms = nat (t mod 86400000) in
      case civil_from_days (t div 86400000) of
        (year, m, d) \<Rightarrow>
          (if 0 \<le> year \<and> year \<le> 9999 then four_digits (nat year)
           else (if year < 0 then str ''-'' else str ''+'') @ six_digits (nat \<bar>year\<bar>))
          @ str ''-'' @ two_digits m @ str ''-'' @ two_digits d
          @ str ''T'' @ two_digits (ms div 3600000)
          @ str '':'' @ two_digits (ms div 60000 mod 60)
          @ str '':'' @ two_digits (ms div 1000 mod 60)
          @ str ''.'' @ three_digits (ms mod 1000)
          @ str ''Z'')"

text \<open>
  \<open>parse0\<close> is \<open>Date.parse\<close> on the strings that \<open>toISOString\<close> prints: it reads
  the fields at their places, and accepts the time value they give when that time
  value prints as the string read. Every other string is taken as unparsable; the
  examples hold no other date string.
\<close>

definition number_of :: "jstring \<Rightarrow> nat" where
  "number_of s = foldl (\<lambda>n c. 10 * n + (unat c - 48)) 0 s"

definition parse0 :: "jstring \<Rightarrow> date" where
  "parse0 s =
     (let k = length s - 24;
          year =
            (if k = 0 then int (number_of (take 4 s))
             else if take 1 s = str ''-'' then - int (number_of (take 6 (drop 1 s)))
             else int (number_of (take 6 (drop 1 s))));
          field = (\<lambda>i n. number_of (take n (drop (k + i) s)));
          t = days_from_civil year (field 5 2) (field 8 2) * 86400000
              + int (field 11 2) * 3600000 + int (field 14 2) * 60000
              + int (field 17 2) * 1000 + int (field 20 3)
      in if iso0 t = s then Date t else Invalid_Date)"

text \<open>
  \<open>toLocaleString\<close> and \<open>toLocaleTimeString\<close> as a runtime with the en-US locale in
  the UTC time zone prints them, with an ordinary space before AM and PM, for the
  years from 1 on.
\<close>

definition locale_time0 :: "int \<Rightarrow> jstring" where
  "locale_time0 t =
     (let ms = nat (t mod 86400000);
          h = ms div 3600000
      in decimal (if h mod 12 = 0 then 12 else h mod 12)
         @ str '':'' @ two_digits (ms div 60000 mod 60)
         @ str '':'' @ two_digits (ms div 1000 mod 60)
         @ (if h < 12 then str '' AM'' else str '' PM''))"

definition locale0 :: "int \<Rightarrow> jstring" where
  "locale0 t =
     (case civil_from_days (t div 86400000) of
        (year, m, d) \<Rightarrow>
          decimal m @ str ''/'' @ decimal d @ str ''/'' @ decimal (nat year)
          @ str '', '' @ locale_time0 t)"

definition js0 :: "builtins" where
  "js0 = \<lparr>toLowerCase = ascii_lower, JSON_parse = (\<lambda>t. None), numberToString = number0,
          toISOString = iso0, Date_parse = parse0,
          toLocaleString =
            (\<lambda>d. case d of Date t \<Rightarrow> locale0 t | Invalid_Date \<Rightarrow> str ''Invalid Date''),
          toLocaleTimeString =
            (\<lambda>d. case d of Date t \<Rightarrow> locale_time0 t | Invalid_Date \<Rightarrow> str ''Invalid Date'')\<rparr>"

definition cfg_on :: config where
  "cfg_on = \<lparr>enableRealAPI = True, enableLocalStorage = True, enableFileUpload = True\<rparr>"

definition cfg_off :: config where
  "cfg_off = \<lparr>enableRealAPI = False, enableLocalStorage = False, enableFileUpload = False\<rparr>"

definition file_of :: "string \<Rightarrow> nat \<Rightarrow> File" where
  "file_of name bytes =
     \<lparr>f_name = str name, f_type = str ''text/plain'', f_size = bytes,
      f_text = Some (str ''hello''), f_dataURL = Some (str ''data:'')\<rparr>"

definition stamp0 :: "nat \<Rightarrow> jstring \<times> int" where
  "stamp0 i = (decimal i, int i)"

text \<open>
  \<open>generatePromptContext\<close>: the text block describing the staged files. The loop
  carries the index; \<open>meta.headers?.join(', ')\<close> prints \<open>undefined\<close> when the
  metadata has no headers.
\<close>

definition nl :: jstring where
  "nl = [0x0A]"

definition fence :: jstring where
  "fence = [0x60, 0x60, 0x60]"

definition file_context :: "nat \<Rightarrow> ProcessedFile \<Rightarrow> jstring" where
  "file_context index file =
     str ''**File '' @ decimal (index + 1) @ str '': '' @ pf_name file @ str ''**'' @ nl
     @ str ''- Type: '' @ pf_type file @ nl
     @ str ''- Size: '' @ kilobytes_toFixed1 (pf_size file) @ str ''KB'' @ nl
     @ (case pf_metadata file of
          None \<Rightarrow> []
        | Some meta \<Rightarrow>
            if endsWith (pf_name file) (str ''.csv'') then
              str ''- CSV Data: '' @ decimal (md_rows meta) @ str '' rows, ''
              @ decimal (md_columns meta) @ str '' columns'' @ nl
              @ str ''- Headers: ''
              @ (case md_headers meta of
                   None \<Rightarrow> str ''undefined''
                 | Some headers \<Rightarrow> join (str '', '') headers) @ nl
            else [])
     @ (if length (pf_content file) < 2000
        then str ''- Content:'' @ nl @ fence @ nl @ pf_content file @ nl @ fence @ nl @ nl
        else str ''- Content Preview:'' @ nl @ fence @ nl @ take 1000 (pf_content file)
             @ str ''...'' @ nl @ fence @ nl @ nl)"

fun file_contexts :: "nat \<Rightarrow> ProcessedFile list \<Rightarrow> jstring" where
  "file_contexts index [] = []"
| "file_contexts index (file # files) = file_context index file @ file_contexts (Suc index) files"

definition generatePromptContext :: "ProcessedFile list \<Rightarrow> jstring" where
  "generatePromptContext files =
     (if files = [] then []
      else
        str ''I have '' @ decimal (length files) @ str '' file''
        @ (if length files > 1 then str ''s'' else []) @ str '' to analyze:'' @ nl @ nl
        @ file_contexts 0 files
        @ str ''Please analyze these files and provide insights or answer any questions about them.'')"

section \<open>Provider gateway (aiService.ts)\<close>

datatype role = User | Assistant | System

record Tokens =
  tk_prompt :: nat
  tk_completion :: nat
  tk_total :: nat

record ChatMessage =
  m_id :: jstring
  m_role :: role
  m_content :: jstring
  m_timestamp :: tvalue
  m_model :: "jstring option"
  m_tokens :: "Tokens option"
  m_files :: "ProcessedFile list option"

datatype category = Cat_text | Cat_code | Cat_image | Cat_multimodal

record AIModel =
  am_id :: jstring
  am_name :: jstring
  am_provider :: jstring
  am_description :: jstring
  am_category :: "category option"
  am_contextLength :: "nat option"
  am_pricing :: "(real \<times> real) option"

record AIParameters =
  temperature :: real
  maxTokens :: real
  topP :: real
  presencePenalty :: real
  frequencyPenalty :: real

record Usage =
  promptTokens :: nat
  completionTokens :: nat
  totalTokens :: nat

record AIResponse =
  r_success :: bool
  r_content :: jstring
  r_error :: "jstring option"
  r_usage :: "Usage option"

text \<open>
  A JavaScript number is an IEEE 754 double: 53 significant bits, the result of every
  multiplication rounded to the nearest double, to the one with an even significand on
  a tie. \<open>ulp x\<close> is the distance between the doubles around a positive \<open>x\<close>, and does
  not go below \<open>pow2 (- 1074)\<close>. \<open>to_double\<close> does not model the overflow to infinity,
  which needs a value from \<open>pow2 1024\<close>: the products of the gateway are below 200.
\<close>

definition pow2 :: "int \<Rightarrow> real" where
  "pow2 e = (if 0 \<le> e then 2 ^ nat e else 1 / 2 ^ nat (- e))"

definition round_half_even :: "real \<Rightarrow> int" where
  "round_half_even q =
     (let f = \<lfloor>q\<rfloor> in
      if q - of_int f < 1 / 2 then f
      else if 1 / 2 < q - of_int f then f + 1
      else if even f then f else f + 1)"

definition ulp :: "real \<Rightarrow> real" where
  "ulp x = pow2 (max \<lfloor>log 2 x\<rfloor> (- 1022) - 52)"

definition to_double :: "real \<Rightarrow> real" where
  "to_double x =
     (if x = 0 then 0
      else sgn x * of_int (round_half_even (\<bar>x\<bar> / ulp \<bar>x\<bar>)) * ulp \<bar>x\<bar>)"

text \<open>
  \<open>Math.random()\<close> returns a double from 0 up to, not including, 1. Each call is an
  argument of the model; \<open>floor_times r n\<close> is \<open>Math.floor(r * n)\<close>, the product
  rounded to a double before the floor is taken.
\<close>

typedef draw = "{r :: real. 0 \<le> r \<and> r < 1 \<and> to_double r = r}"
  by (rule exI [of _ 0]) (simp add: to_double_def)

setup_lifting type_definition_draw

lift_definition floor_times :: "draw \<Rightarrow> nat \<Rightarrow> nat" is
  "\<lambda>r n. nat \<lfloor>to_double (r * real n)\<rfloor>" .

lift_definition draw_zero :: draw is 0
  by (simp add: to_double_def)

lift_definition draw_half :: draw is "1 / 2"
proof -
  have "log 2 (1 / 2 :: real) = of_int (- 1)" by (simp add: log_divide)
  then have "\<lfloor>log 2 (1 / 2 :: real)\<rfloor> = - 1" by (simp only: floor_of_int)
  then have u: "ulp (1 / 2) = 1 / 2 ^ 53" by (simp add: ulp_def pow2_def)
  have "to_double (1 / 2) = 1 / 2" by (simp add: to_double_def u round_half_even_def)
  then show "0 \<le> (1 / 2 :: real) \<and> (1 / 2 :: real) < 1 \<and> to_double (1 / 2) = 1 / 2" by simp
qed

text \<open>
  The three canned answers of \<open>generateMockResponse\<close>; \<open>quoted n prompt\<close> is the
  prompt cut to \<open>n\<close> code units, with the dots when it was longer, between double
  quotes. The bullet is U+2022 and the check mark U+2705.
\<close>

definition quoted :: "nat \<Rightarrow> jstring \<Rightarrow> jstring" where
  "quoted n prompt =
     [0x22] @ slice0 n prompt @ (if length prompt > n then str ''...'' else []) @ [0x22]"

definition bullet :: "string \<Rightarrow> jstring" where
  "bullet s = [0x2022] @ str '' '' @ str s"

definition check :: "string \<Rightarrow> jstring" where
  "check s = [0x2705] @ str '' '' @ str s"

definition mock_response_0 :: "builtins \<Rightarrow> jstring \<Rightarrow> AIModel \<Rightarrow> AIParameters \<Rightarrow> jstring" where
  "mock_response_0 js prompt model parameters =
     join nl
      [str ''Using '' @ am_name model @ str '' with temperature ''
         @ numberToString js (temperature parameters)
         @ str '': This is a simulated response demonstrating the enhanced AI interface capabilities. '',
       [],
       str ''Your query: '' @ quoted 100 prompt,
       [],
       str ''Enhanced features now include:'',
       bullet ''Real AI API integration support for multiple providers'',
       bullet ''Persistent conversation storage'',
       bullet ''Advanced export/import capabilities'',
       bullet ''File upload and processing'',
       bullet ''Conversation management'',
       bullet ''Token usage tracking'',
       bullet ''Error handling and recovery'',
       [],
       str ''The interface maintains backward compatibility while adding professional-grade features for production use.'']"

definition mock_response_1 :: "builtins \<Rightarrow> jstring \<Rightarrow> AIModel \<Rightarrow> AIParameters \<Rightarrow> jstring" where
  "mock_response_1 js prompt model parameters =
     join nl
      [str ''Response from '' @ am_name model @ str '': I'' @ [0x27]
         @ str ''ve processed your request with the following enhanced capabilities:'',
       [],
       str ''**Query Analysis**: '' @ quoted 80 prompt,
       str ''**Model Settings**: Temperature: '' @ numberToString js (temperature parameters)
         @ str '', Max Tokens: '' @ numberToString js (maxTokens parameters),
       [],
       str ''**New Features Available**:'',
       str ''1. **Multi-Provider Support** - OpenAI, Anthropic, Google, Hugging Face, Cohere, Ollama, Groq'',
       str ''2. **Persistent Storage** - Conversations and templates are now saved automatically'',
       str ''3. **Advanced Export** - Multiple formats including JSON, Markdown, and PDF'',
       str ''4. **File Processing** - Upload and analyze documents, images, and data files'',
       str ''5. **Conversation Management** - Create, organize, and search through chat history'',
       str ''6. **Token Tracking** - Monitor usage and costs across different providers'',
       [],
       str ''The enhanced interface is production-ready with enterprise-grade features while maintaining the intuitive user experience.'']"

definition mock_response_2 :: "builtins \<Rightarrow> jstring \<Rightarrow> AIModel \<Rightarrow> AIParameters \<Rightarrow> jstring" where
  "mock_response_2 js prompt model parameters =
     join nl
      [am_name model @ str '' Analysis Complete:'',
       [],
       str ''**Input Processing**: Successfully analyzed your prompt about '' @ quoted 60 prompt,
       str ''**Configuration**: Using optimized parameters (T: ''
         @ numberToString js (temperature parameters) @ str '', Max: ''
         @ numberToString js (maxTokens parameters) @ str '')'',
       [],
       str ''**System Enhancements**:'',
       check ''**API Integration** - Multiple AI providers configured'',
       check ''**Data Persistence** - LocalStorage + IndexedDB support  '',
       check ''**Export System** - Comprehensive conversation export'',
       check ''**File Handling** - Upload and process various file types'',
       check ''**Search & Filter** - Advanced conversation management'',
       check ''**Performance** - Optimized rendering and caching'',
       check ''**Accessibility** - WCAG compliant interface'',
       check ''**Security** - Secure API key management'',
       [],
       str ''This mock response demonstrates the interface'' @ [0x27]
         @ str ''s ability to handle complex interactions while providing detailed feedback and maintaining context throughout the conversation.'']"

text \<open>
  \<open>generateMockResponse\<close>. The object literal is evaluated field by field, so
  \<open>Math.random()\<close> is called three times: \<open>r1\<close> picks the answer, \<open>r2\<close> is the
  call inside \<open>completionTokens\<close> and \<open>r3\<close> the call inside \<open>totalTokens\<close>. A
  promise that rejects is \<open>Inl\<close> of the error's message; reading \<open>model.name\<close>
  of a missing model is such a rejection.
\<close>

definition null_name_error :: jstring where
  "null_name_error =
     str ''Cannot read properties of null (reading '' @ [0x27] @ str ''name'' @ [0x27] @ str '')''"

definition null_provider_error :: jstring where
  "null_provider_error =
     str ''Cannot read properties of null (reading '' @ [0x27] @ str ''provider'' @ [0x27] @ str '')''"

definition generateMockResponse ::
  "builtins \<Rightarrow> draw \<Rightarrow> draw \<Rightarrow> draw \<Rightarrow> ChatMessage list \<Rightarrow> AIModel option \<Rightarrow> AIParameters \<Rightarrow>
   jstring + AIResponse" where
  "generateMockResponse js r1 r2 r3 messages model_opt parameters =
     (let prompt = (if messages = [] then [] else m_content (last messages)) in
      case model_opt of
        None \<Rightarrow> Inl null_name_error
      | Some model \<Rightarrow>
          let responses =
                [mock_response_0 js prompt model parameters,
                 mock_response_1 js prompt model parameters,
                 mock_response_2 js prompt model parameters]
          in Inr \<lparr>r_success = True,
                  r_content = responses ! floor_times r1 (length responses),
                  r_error = None,
                  r_usage =
                    Some \<lparr>promptTokens = length prompt div 4,
                          completionTokens = floor_times r2 200 + 50,
                          totalTokens = length prompt div 4 + floor_times r3 200 + 50\<rparr>\<rparr>)"

text \<open>
  \<open>generateResponse\<close>. The seven provider calls go to the network; \<open>call\<close> stands
  for them, taking the lower-cased provider name and returning the response or the
  message of the error thrown. The \<open>catch\<close> turns a thrown error into a failed
  response. With the toggle off the mock runs outside the \<open>try\<close>.
\<close>

definition providers :: "jstring list" where
  "providers =
     map str [''openai'', ''anthropic'', ''google'', ''huggingface'', ''cohere'', ''ollama'', ''groq'']"

definition failed_response :: "jstring \<Rightarrow> AIResponse" where
  "failed_response m = \<lparr>r_success = False, r_content = [], r_error = Some m, r_usage = None\<rparr>"

definition generateResponse ::
  "builtins \<Rightarrow> config \<Rightarrow>
   (jstring \<Rightarrow> ChatMessage list \<Rightarrow> AIModel \<Rightarrow> AIParameters \<Rightarrow> jstring + AIResponse) \<Rightarrow>
   draw \<Rightarrow> draw \<Rightarrow> draw \<Rightarrow> ChatMessage list \<Rightarrow> AIModel option \<Rightarrow> AIParameters \<Rightarrow>
   jstring + AIResponse" where
  "generateResponse js cfg call r1 r2 r3 messages model_opt parameters =
     (if \<not> enableRealAPI cfg then generateMockResponse js r1 r2 r3 messages model_opt parameters
      else
        (case model_opt of
           None \<Rightarrow> Inr (failed_response null_provider_error)
         | Some model \<Rightarrow>
             let provider = toLowerCase js (am_provider model) in
             if provider \<in> set providers then
               (case call provider messages model parameters of
                  Inl m \<Rightarrow> Inr (failed_response m)
                | Inr response \<Rightarrow> Inr response)
             else generateMockResponse js r1 r2 r3 messages model_opt parameters))"

section \<open>Persistence (storageService.ts)\<close>

record Conversation =
  c_id :: jstring
  c_title :: jstring
  c_messages :: "ChatMessage list"
  c_createdAt :: tvalue
  c_updatedAt :: tvalue
  c_model :: "jstring option"
  c_totalTokens :: "nat option"

record PromptTemplate =
  t_id :: jstring
  t_name :: jstring
  t_content :: jstring
  t_category :: jstring
  t_tags :: "jstring list option"
  t_createdAt :: tvalue
  t_usageCount :: "nat option"

text \<open>
  \<open>localStorage\<close> holds one JSON text per key. An item is missing, or a text that
  \<open>JSON.parse\<close> or the code reading it rejects, or the JSON of a list of records; in
  the last case the item is kept as the records that \<open>JSON.parse\<close> yields.
  \<open>ls_full\<close> says that \<open>setItem\<close> throws (the quota is used up).
\<close>

datatype 'a item = Missing | Unparsable | Json 'a

record localStorage =
  ls_conversations :: "Conversation list item"
  ls_templates :: "PromptTemplate list item"
  ls_full :: bool

text \<open>What \<open>JSON.parse (JSON.stringify x)\<close> yields for the records of the store.\<close>

definition json_file :: "builtins \<Rightarrow> ProcessedFile \<Rightarrow> ProcessedFile" where
  "json_file js f = f\<lparr>pf_uploadedAt := json_tvalue js (pf_uploadedAt f)\<rparr>"

definition json_message :: "builtins \<Rightarrow> ChatMessage \<Rightarrow> ChatMessage" where
  "json_message js m =
     m\<lparr>m_timestamp := json_tvalue js (m_timestamp m),
       m_files := map_option (map (json_file js)) (m_files m)\<rparr>"

definition json_conversation :: "builtins \<Rightarrow> Conversation \<Rightarrow> Conversation" where
  "json_conversation js c =
     c\<lparr>c_createdAt := json_tvalue js (c_createdAt c),
       c_updatedAt := json_tvalue js (c_updatedAt c),
       c_messages := map (json_message js) (c_messages c)\<rparr>"

definition json_template :: "builtins \<Rightarrow> PromptTemplate \<Rightarrow> PromptTemplate" where
  "json_template js t = t\<lparr>t_createdAt := json_tvalue js (t_createdAt t)\<rparr>"

definition setItem_conversations ::
  "builtins \<Rightarrow> Conversation list \<Rightarrow> localStorage \<Rightarrow> localStorage option" where
  "setItem_conversations js conversations ls =
     (if ls_full ls then None
      else Some (ls\<lparr>ls_conversations := Json (map (json_conversation js) conversations)\<rparr>))"

definition setItem_templates ::
  "builtins \<Rightarrow> PromptTemplate list \<Rightarrow> localStorage \<Rightarrow> localStorage option" where
  "setItem_templates js templates ls =
     (if ls_full ls then None
      else Some (ls\<lparr>ls_templates := Json (map (json_template js) templates)\<rparr>))"

fun findIndex :: "('a \<Rightarrow> bool) \<Rightarrow> 'a list \<Rightarrow> nat option" where
  "findIndex p [] = None"
| "findIndex p (x # xs) =
     (if p x then Some 0 else (case findIndex p xs of None \<Rightarrow> None | Some i \<Rightarrow> Some (Suc i)))"

definition findLastIndex :: "('a \<Rightarrow> bool) \<Rightarrow> 'a list \<Rightarrow> nat option" where
  "findLastIndex p xs =
     (case findIndex p (rev xs) of None \<Rightarrow> None | Some i \<Rightarrow> Some (length xs - 1 - i))"

text \<open>\<open>getConversations\<close>: every failure inside the \<open>try\<close> gives the empty list.\<close>

definition revive_message :: "builtins \<Rightarrow> ChatMessage \<Rightarrow> ChatMessage" where
  "revive_message js msg = msg\<lparr>m_timestamp := T_date (new_Date js (m_timestamp msg))\<rparr>"

definition revive_conversation :: "builtins \<Rightarrow> Conversation \<Rightarrow> Conversation" where
  "revive_conversation js conv =
     conv\<lparr>c_createdAt := T_date (new_Date js (c_createdAt conv)),
          c_updatedAt := T_date (new_Date js (c_updatedAt conv)),
          c_messages := map (revive_message js) (c_messages conv)\<rparr>"

definition getConversations :: "builtins \<Rightarrow> config \<Rightarrow> localStorage \<Rightarrow> Conversation list" where
  "getConversations js cfg ls =
     (if \<not> enableLocalStorage cfg then []
      else
        (case ls_conversations ls of
           Missing \<Rightarrow> []
         | Unparsable \<Rightarrow> []
         | Json conversations \<Rightarrow> map (revive_conversation js) conversations))"

definition getConversation ::
  "builtins \<Rightarrow> config \<Rightarrow> jstring \<Rightarrow> localStorage \<Rightarrow> Conversation option" where
  "getConversation js cfg cid ls = List.find (\<lambda>c. c_id c = cid) (getConversations js cfg ls)"

text \<open>
  \<open>saveConversation\<close>. \<open>now_created\<close> is the clock reading that stands in for a
  missing \<open>createdAt\<close> and \<open>now\<close> the one stored as \<open>updatedAt\<close>. A failing
  \<open>setItem\<close> is caught and logged: the store stays as it was.
\<close>

definition saveConversation ::
  "builtins \<Rightarrow> config \<Rightarrow> int \<Rightarrow> int \<Rightarrow> Conversation \<Rightarrow> localStorage \<Rightarrow> localStorage" where
  "saveConversation js cfg now_created now conversation ls =
     (if \<not> enableLocalStorage cfg then ls
      else
        let conversations = getConversations js cfg ls;
            conversations' =
              (case findIndex (\<lambda>c. c_id c = c_id conversation) conversations of
                 Some existingIndex \<Rightarrow>
                   conversations[existingIndex := conversation\<lparr>c_updatedAt := T_date (Date now)\<rparr>]
               | None \<Rightarrow>
                   conversation
                     \<lparr>c_createdAt :=
                        (if truthy (c_createdAt conversation) then c_createdAt conversation
                         else T_date (Date now_created)),
                      c_updatedAt := T_date (Date now)\<rparr> # conversations)
        in (case setItem_conversations js conversations' ls of None \<Rightarrow> ls | Some ls' \<Rightarrow> ls'))"

definition deleteConversation_store ::
  "builtins \<Rightarrow> config \<Rightarrow> jstring \<Rightarrow> localStorage \<Rightarrow> localStorage" where
  "deleteConversation_store js cfg cid ls =
     (if \<not> enableLocalStorage cfg then ls
      else
        (case setItem_conversations js
                (filter (\<lambda>c. c_id c \<noteq> cid) (getConversations js cfg ls)) ls of
           None \<Rightarrow> ls
         | Some ls' \<Rightarrow> ls'))"

text \<open>\<open>getTemplates\<close> returns what \<open>JSON.parse\<close> yields; \<open>saveTemplate\<close>.\<close>

definition getTemplates :: "config \<Rightarrow> localStorage \<Rightarrow> PromptTemplate list" where
  "getTemplates cfg ls =
     (if \<not> enableLocalStorage cfg then []
      else
        (case ls_templates ls of
           Missing \<Rightarrow> []
         | Unparsable \<Rightarrow> []
         | Json templates \<Rightarrow> templates))"

definition saveTemplate_store ::
  "builtins \<Rightarrow> config \<Rightarrow> PromptTemplate \<Rightarrow> localStorage \<Rightarrow> localStorage" where
  "saveTemplate_store js cfg template ls =
     (if \<not> enableLocalStorage cfg then ls
      else
        let templates = getTemplates cfg ls;
            templates' =
              (case findIndex (\<lambda>t. t_id t = t_id template) templates of
                 Some existingIndex \<Rightarrow> templates[existingIndex := template]
               | None \<Rightarrow> templates @ [template])
        in (case setItem_templates js templates' ls of None \<Rightarrow> ls | Some ls' \<Rightarrow> ls'))"

text \<open>
  Export. The JSON text of a conversation is kept as the record \<open>JSON.parse\<close> reads
  from it. In the two transcripts the role labels start with the four code units that
  the source file holds in place of an emoji. \<open>toLocaleString\<close> of a string is the
  string, and of \<open>null\<close> or \<open>undefined\<close> a \<open>TypeError\<close>; a string has no
  \<open>toLocaleTimeString\<close>, so that calling it is a \<open>TypeError\<close> too.
\<close>

datatype format = Format_json | Format_markdown | Format_txt

datatype exported = Json_text Conversation | Plain_text jstring

datatype export_error = Conversation_not_found | Type_error

definition localeString :: "(date \<Rightarrow> jstring) \<Rightarrow> tvalue \<Rightarrow> export_error + jstring" where
  "localeString pr v =
     (case v of
        T_date d \<Rightarrow> Inr (pr d)
      | T_string s \<Rightarrow> Inr s
      | T_null \<Rightarrow> Inl Type_error
      | T_undefined \<Rightarrow> Inl Type_error)"

definition localeTimeString :: "(date \<Rightarrow> jstring) \<Rightarrow> tvalue \<Rightarrow> export_error + jstring" where
  "localeTimeString pr v =
     (case v of
        T_date d \<Rightarrow> Inr (pr d)
      | T_string s \<Rightarrow> Inl Type_error
      | T_null \<Rightarrow> Inl Type_error
      | T_undefined \<Rightarrow> Inl Type_error)"

fun collect :: "('a \<Rightarrow> export_error + 'b) \<Rightarrow> 'a list \<Rightarrow> export_error + 'b list" where
  "collect f [] = Inr []"
| "collect f (x # xs) =
     (case f x of
        Inl e \<Rightarrow> Inl e
      | Inr y \<Rightarrow> (case collect f xs of Inl e \<Rightarrow> Inl e | Inr ys \<Rightarrow> Inr (y # ys)))"

definition repeat :: "nat \<Rightarrow> string \<Rightarrow> jstring" where
  "repeat n s = concat (replicate n (str s))"

definition conversationToMarkdown :: "builtins \<Rightarrow> Conversation \<Rightarrow> export_error + jstring" where
  "conversationToMarkdown js conversation =
     (let header = str ''# '' @ c_title conversation @ nl @ nl in
      case localeString (toLocaleString js) (c_createdAt conversation) of
        Inl e \<Rightarrow> Inl e
      | Inr created \<Rightarrow>
          let metadata = str ''**Created:** '' @ created @ nl;
              modelInfo =
                (case c_model conversation of
                   None \<Rightarrow> []
                 | Some m \<Rightarrow> if m = [] then [] else str ''**Model:** '' @ m @ nl);
              tokenInfo =
                (case c_totalTokens conversation of
                   None \<Rightarrow> []
                 | Some n \<Rightarrow> if n = 0 then [] else str ''**Total Tokens:** '' @ decimal n @ nl)
          in
          (case collect
                  (\<lambda>msg.
                     let role =
                           (if m_role msg = User
                            then [0xF0, 0x178, 0x2018, 0xA4] @ str '' **You**''
                            else [0xF0, 0x178, 0xA4, 0x2013] @ str '' **Assistant**'')
                     in case localeTimeString (toLocaleTimeString js) (m_timestamp msg) of
                          Inl e \<Rightarrow> Inl e
                        | Inr timestamp \<Rightarrow>
                            Inr (str ''## '' @ role @ str '' *('' @ timestamp @ str '')*'' @ nl @ nl
                                 @ m_content msg @ nl))
                  (c_messages conversation) of
             Inl e \<Rightarrow> Inl e
           | Inr messages \<Rightarrow>
               Inr (header @ metadata @ modelInfo @ tokenInfo @ nl @ str ''---'' @ nl @ nl
                    @ join (nl @ str ''---'' @ nl @ nl) messages)))"

definition conversationToText :: "builtins \<Rightarrow> Conversation \<Rightarrow> export_error + jstring" where
  "conversationToText js conversation =
     (let header =
            c_title conversation @ nl @ repeat (length (c_title conversation)) ''='' @ nl @ nl
      in
      case localeString (toLocaleString js) (c_createdAt conversation) of
        Inl e \<Rightarrow> Inl e
      | Inr created \<Rightarrow>
          let metadata = str ''Created: '' @ created @ nl;
              modelInfo =
                (case c_model conversation of
                   None \<Rightarrow> []
                 | Some m \<Rightarrow> if m = [] then [] else str ''Model: '' @ m @ nl);
              tokenInfo =
                (case c_totalTokens conversation of
                   None \<Rightarrow> []
                 | Some n \<Rightarrow> if n = 0 then [] else str ''Total Tokens: '' @ decimal n @ nl)
          in
          (case collect
                  (\<lambda>msg.
                     let role = (if m_role msg = User then str ''You'' else str ''Assistant'')
                     in case localeTimeString (toLocaleTimeString js) (m_timestamp msg) of
                          Inl e \<Rightarrow> Inl e
                        | Inr timestamp \<Rightarrow>
                            Inr (str ''['' @ timestamp @ str ''] '' @ role @ str '':'' @ nl
                                 @ m_content msg @ nl))
                  (c_messages conversation) of
             Inl e \<Rightarrow> Inl e
           | Inr messages \<Rightarrow>
               Inr (header @ metadata @ modelInfo @ tokenInfo @ nl @ repeat 40 ''-'' @ nl @ nl
                    @ join (nl @ repeat 40 ''-'' @ nl @ nl) messages)))"

definition exportConversation ::
  "builtins \<Rightarrow> config \<Rightarrow> jstring \<Rightarrow> format \<Rightarrow> localStorage \<Rightarrow> export_error + exported" where
  "exportConversation js cfg cid format ls =
     (case getConversation js cfg cid ls of
        None \<Rightarrow> Inl Conversation_not_found
      | Some conversation \<Rightarrow>
          (case format of
             Format_json \<Rightarrow> Inr (Json_text (json_conversation js conversation))
           | Format_markdown \<Rightarrow>
               (case conversationToMarkdown js conversation of
                  Inl e \<Rightarrow> Inl e
                | Inr text \<Rightarrow> Inr (Plain_text text))
           | Format_txt \<Rightarrow>
               (case conversationToText js conversation of
                  Inl e \<Rightarrow> Inl e
                | Inr text \<Rightarrow> Inr (Plain_text text))))"

text \<open>
  Import. The data is a text that \<open>JSON.parse\<close> rejects, or the JSON of one
  conversation or of a list of them; any field of a conversation may be missing. For
  each conversation the clock is read for the identifier, for the two dates standing
  in for missing ones, and twice more inside \<open>saveConversation\<close>.
\<close>

record imported =
  i_id :: "jstring option"
  i_title :: "jstring option"
  i_messages :: "ChatMessage list option"
  i_createdAt :: tvalue
  i_updatedAt :: tvalue
  i_model :: "jstring option"
  i_totalTokens :: "nat option"

datatype import_data = Not_JSON | Json_object imported | Json_array "imported list"

record import_clock =
  ic_id :: int
  ic_created :: int
  ic_updated :: int
  ic_store_created :: int
  ic_store_updated :: int

definition parse_conversation :: "Conversation \<Rightarrow> imported" where
  "parse_conversation c =
     \<lparr>i_id = Some (c_id c), i_title = Some (c_title c), i_messages = Some (c_messages c),
      i_createdAt = c_createdAt c, i_updatedAt = c_updatedAt c, i_model = c_model c,
      i_totalTokens = c_totalTokens c\<rparr>"

definition parse_exported :: "exported \<Rightarrow> import_data" where
  "parse_exported e =
     (case e of Json_text c \<Rightarrow> Json_object (parse_conversation c) | Plain_text t \<Rightarrow> Not_JSON)"

definition or_else :: "jstring option \<Rightarrow> jstring \<Rightarrow> jstring" where
  "or_else v d = (case v of None \<Rightarrow> d | Some s \<Rightarrow> if s = [] then d else s)"

definition import_conversation :: "builtins \<Rightarrow> import_clock \<Rightarrow> imported \<Rightarrow> Conversation" where
  "import_conversation js clock conv =
     \<lparr>c_id = or_else (i_id conv) (decimal (nat (ic_id clock))),
      c_title = or_else (i_title conv) (str ''Imported Conversation''),
      c_messages = (case i_messages conv of None \<Rightarrow> [] | Some ms \<Rightarrow> ms),
      c_createdAt =
        (if truthy (i_createdAt conv) then T_date (new_Date js (i_createdAt conv))
         else T_date (Date (ic_created clock))),
      c_updatedAt =
        (if truthy (i_updatedAt conv) then T_date (new_Date js (i_updatedAt conv))
         else T_date (Date (ic_updated clock))),
      c_model = i_model conv,
      c_totalTokens = i_totalTokens conv\<rparr>"

fun import_each ::
  "builtins \<Rightarrow> config \<Rightarrow> (nat \<Rightarrow> import_clock) \<Rightarrow> nat \<Rightarrow> imported list \<Rightarrow> localStorage \<Rightarrow>
   localStorage" where
  "import_each js cfg clock i [] ls = ls"
| "import_each js cfg clock i (conv # conversations) ls =
     import_each js cfg clock (Suc i) conversations
       (saveConversation js cfg (ic_store_created (clock i)) (ic_store_updated (clock i))
          (import_conversation js (clock i) conv) ls)"

definition importConversations ::
  "builtins \<Rightarrow> config \<Rightarrow> (nat \<Rightarrow> import_clock) \<Rightarrow> import_data \<Rightarrow> localStorage \<Rightarrow>
   bool \<times> localStorage" where
  "importConversations js cfg clock data ls =
     (case data of
        Not_JSON \<Rightarrow> (False, ls)
      | Json_object conv \<Rightarrow> (True, import_each js cfg clock 0 [conv] ls)
      | Json_array conversations \<Rightarrow> (True, import_each js cfg clock 0 conversations ls))"

section \<open>Conversation state (AIContext.tsx)\<close>

text \<open>
  The state held by the provider component. A callback sees the values of the render
  that created it; a setter called with a function is applied to the state as it is
  when the update runs, and a setter called with a value replaces it. The operations
  below are run from the current render, with no other update in between.
\<close>

record Settings =
  autoSave :: bool
  autoTitle :: bool
  showTokenCount :: bool
  enableSound :: bool

record state =
  models :: "AIModel list"
  selectedModel :: "AIModel option"
  templates :: "PromptTemplate list"
  messages :: "ChatMessage list"
  conversations :: "Conversation list"
  currentConversationId :: "jstring option"
  currentPrompt :: jstring
  parameters :: AIParameters
  uploadedFiles :: "ProcessedFile list"
  isLoading :: bool
  isGenerating :: bool
  error :: "jstring option"
  settings :: Settings

text \<open>The gateway as the state manager calls it: a response, or the error thrown.\<close>

type_synonym gateway =
  "ChatMessage list \<Rightarrow> AIModel option \<Rightarrow> AIParameters \<Rightarrow> jstring + AIResponse"

text \<open>
  \<open>addMessage\<close>. Its argument has no identifier and no timestamp; they are
  generated, and are arguments here. \<open>captured\<close> is the list of staged files of the
  render that created the callback: the message takes its \<open>files\<close> from it, whatever
  the argument says, and the staged files are cleared when it is not empty.
\<close>

record NewMessage =
  n_role :: role
  n_content :: jstring
  n_model :: "jstring option"
  n_tokens :: "Tokens option"
  n_files :: "ProcessedFile list option"

definition addMessage ::
  "ProcessedFile list \<Rightarrow> jstring \<Rightarrow> int \<Rightarrow> NewMessage \<Rightarrow> state \<Rightarrow> state" where
  "addMessage captured new_id now message s =
     (let newMessage =
            \<lparr>m_id = new_id, m_role = n_role message, m_content = n_content message,
             m_timestamp = T_date (Date now), m_model = n_model message,
             m_tokens = n_tokens message,
             m_files = (if captured \<noteq> [] then Some captured else None)\<rparr>;
          s1 = s\<lparr>messages := messages s @ [newMessage]\<rparr>
      in if captured \<noteq> [] then s1\<lparr>uploadedFiles := []\<rparr> else s1)"

definition editMessage :: "jstring \<Rightarrow> jstring \<Rightarrow> int \<Rightarrow> state \<Rightarrow> state" where
  "editMessage mid content now s =
     s\<lparr>messages :=
         map (\<lambda>msg. if m_id msg = mid
                     then msg\<lparr>m_content := content, m_timestamp := T_date (Date now)\<rparr>
                     else msg)
           (messages s)\<rparr>"

definition deleteMessage :: "jstring \<Rightarrow> state \<Rightarrow> state" where
  "deleteMessage mid s = s\<lparr>messages := filter (\<lambda>msg. m_id msg \<noteq> mid) (messages s)\<rparr>"

definition clearMessages :: "state \<Rightarrow> state" where
  "clearMessages s = s\<lparr>messages := [], uploadedFiles := [], currentConversationId := None\<rparr>"

text \<open>\<open>createConversation\<close> reads the clock twice and also empties the message list.\<close>

definition createConversation ::
  "jstring \<Rightarrow> int \<Rightarrow> int \<Rightarrow> jstring option \<Rightarrow> state \<Rightarrow> jstring \<times> state" where
  "createConversation new_id now_created now_updated title s =
     (let conversation =
            \<lparr>c_id = new_id, c_title = or_else title (str ''New Conversation''),
             c_messages = [], c_createdAt = T_date (Date now_created),
             c_updatedAt = T_date (Date now_updated), c_model = None, c_totalTokens = None\<rparr>
      in (new_id,
          s\<lparr>conversations := conversation # conversations s,
            currentConversationId := Some new_id,
            messages := [],
            uploadedFiles := []\<rparr>))"

definition no_id :: "jstring option \<Rightarrow> bool" where
  "no_id v = (case v of None \<Rightarrow> True | Some i \<Rightarrow> i = [])"

definition usage_tokens :: "Usage option \<Rightarrow> Tokens option" where
  "usage_tokens u =
     map_option
       (\<lambda>usage. \<lparr>tk_prompt = promptTokens usage, tk_completion = completionTokens usage,
                 tk_total = totalTokens usage\<rparr>) u"

text \<open>
  The values generated during \<open>sendMessage\<close> and \<open>regenerateLastMessage\<close>:
  identifiers and clock readings for the user message, for the conversation created
  when none is active, for the temporary message sent to the gateway, and for the
  assistant's message.
\<close>

record fresh =
  user_id :: jstring
  user_time :: int
  conv_id :: jstring
  conv_created :: int
  conv_updated :: int
  temp_time :: int
  reply_id :: jstring
  reply_time :: int

text \<open>
  \<open>sendMessage\<close> up to the \<open>await\<close>: either a validation error, or the state after
  the synchronous updates with the request for the gateway.
\<close>

definition sendMessage_start ::
  "fresh \<Rightarrow> state \<Rightarrow> state + (state \<times> ChatMessage list \<times> AIModel)" where
  "sendMessage_start fr s =
     (if trim (currentPrompt s) = [] \<and> uploadedFiles s = []
      then Inl (s\<lparr>error := Some (str ''Please enter a message or upload files'')\<rparr>)
      else
        (case selectedModel s of
           None \<Rightarrow> Inl (s\<lparr>error := Some (str ''Please select a model'')\<rparr>)
         | Some model \<Rightarrow>
             let messageContent =
                   (if uploadedFiles s \<noteq> []
                    then generatePromptContext (uploadedFiles s)
                         @ (if currentPrompt s \<noteq> []
                            then nl @ nl @ str ''User Question: '' @ currentPrompt s
                            else [])
                    else currentPrompt s);
                 s1 = addMessage (uploadedFiles s) (user_id fr) (user_time fr)
                        \<lparr>n_role = User, n_content = currentPrompt s,
                         n_model = Some (am_name model), n_tokens = None,
                         n_files = (if uploadedFiles s \<noteq> [] then Some (uploadedFiles s)
                                    else None)\<rparr> s;
                 userPrompt = messageContent;
                 s2 = s1\<lparr>currentPrompt := [], isLoading := True, isGenerating := True,
                         error := None\<rparr>;
                 s3 = (if no_id (currentConversationId s)
                       then snd (createConversation (conv_id fr) (conv_created fr)
                                   (conv_updated fr) None s2)
                       else s2);
                 conversationMessages =
                   messages s
                   @ [\<lparr>m_id = str ''temp'', m_role = User, m_content = userPrompt,
                       m_timestamp = T_date (Date (temp_time fr)), m_model = None,
                       m_tokens = None, m_files = None\<rparr>]
             in Inr (s3, conversationMessages, model)))"

text \<open>
  \<open>sendMessage\<close> after the \<open>await\<close>. The \<open>addMessage\<close> it calls is the callback of
  the render in which \<open>sendMessage\<close> started, so \<open>captured\<close> is the list of files
  staged then.
\<close>

definition error_or :: "jstring option \<Rightarrow> jstring \<Rightarrow> jstring" where
  "error_or e d = or_else e d"

definition sendMessage_finish ::
  "fresh \<Rightarrow> ProcessedFile list \<Rightarrow> AIModel \<Rightarrow> jstring + AIResponse \<Rightarrow> state \<Rightarrow> state" where
  "sendMessage_finish fr captured model outcome s =
     (let s' =
            (case outcome of
               Inr response \<Rightarrow>
                 if r_success response
                 then addMessage captured (reply_id fr) (reply_time fr)
                        \<lparr>n_role = Assistant, n_content = r_content response,
                         n_model = Some (am_name model),
                         n_tokens = usage_tokens (r_usage response), n_files = None\<rparr> s
                 else s\<lparr>error :=
                          Some (error_or (r_error response) (str ''Failed to generate response''))\<rparr>
             | Inl m \<Rightarrow> s\<lparr>error := Some m\<rparr>)
      in s'\<lparr>isLoading := False, isGenerating := False\<rparr>)"

definition sendMessage :: "gateway \<Rightarrow> fresh \<Rightarrow> state \<Rightarrow> state" where
  "sendMessage gw fr s =
     (case sendMessage_start fr s of
        Inl s' \<Rightarrow> s'
      | Inr (s', conversationMessages, model) \<Rightarrow>
          sendMessage_finish fr (uploadedFiles s) model
            (gw conversationMessages (Some model) (parameters s)) s')"

text \<open>\<open>regenerateLastMessage\<close>; \<open>messages.slice(0, i)\<close> is \<open>take i\<close>.\<close>

definition regenerateLastMessage :: "gateway \<Rightarrow> fresh \<Rightarrow> state \<Rightarrow> state" where
  "regenerateLastMessage gw fr s =
     (if length (messages s) < 2 then s
      else
        (case findLastIndex (\<lambda>msg. m_role msg = Assistant) (messages s) of
           None \<Rightarrow> s
         | Some lastAssistantIndex \<Rightarrow>
             let messagesWithoutLast = take lastAssistantIndex (messages s);
                 s1 = s\<lparr>messages := messagesWithoutLast\<rparr>;
                 s2 = s1\<lparr>isGenerating := True\<rparr>;
                 s3 =
                   (case gw messagesWithoutLast (selectedModel s) (parameters s) of
                      Inr response \<Rightarrow>
                        if r_success response
                        then addMessage (uploadedFiles s) (reply_id fr) (reply_time fr)
                               \<lparr>n_role = Assistant, n_content = r_content response,
                                n_model = map_option am_name (selectedModel s),
                                n_tokens = usage_tokens (r_usage response), n_files = None\<rparr> s2
                        else s2\<lparr>error :=
                                  Some (error_or (r_error response)
                                          (str ''Failed to regenerate response''))\<rparr>
                    | Inl m \<Rightarrow> s2\<lparr>error := Some m\<rparr>)
             in s3\<lparr>isGenerating := False\<rparr>))"

text \<open>
  \<open>saveCurrentConversation\<close> and \<open>renameConversation\<close> change the list in memory and
  the store. \<open>now\<close> is the clock reading put into the conversation in memory; the
  other readings are those taken on the way to the store.
\<close>

definition saveCurrentConversation ::
  "builtins \<Rightarrow> config \<Rightarrow> int \<Rightarrow> int \<Rightarrow> int \<Rightarrow> state \<Rightarrow> localStorage \<Rightarrow> state \<times> localStorage" where
  "saveCurrentConversation js cfg now now_created now_store s ls =
     (if no_id (currentConversationId s) \<or> messages s = [] then (s, ls)
      else
        (case List.find (\<lambda>c. Some (c_id c) = currentConversationId s) (conversations s) of
           None \<Rightarrow> (s, ls)
         | Some conversation \<Rightarrow>
             let updatedConversation =
                   conversation
                     \<lparr>c_messages := messages s,
                      c_updatedAt := T_date (Date now),
                      c_model := map_option am_name (selectedModel s),
                      c_totalTokens :=
                        Some (sum_list
                                (map (\<lambda>msg. case m_tokens msg of None \<Rightarrow> 0
                                             | Some t \<Rightarrow> tk_total t)
                                   (messages s)))\<rparr>;
                 updatedConversation' =
                   (if autoTitle (settings s) \<and> c_title conversation = str ''New Conversation''
                       \<and> length (messages s) \<ge> 2
                    then
                      (case List.find (\<lambda>m. m_role m = User) (messages s) of
                         None \<Rightarrow> updatedConversation
                       | Some firstUserMessage \<Rightarrow>
                           updatedConversation
                             \<lparr>c_title :=
                                slice0 50 (m_content firstUserMessage)
                                @ (if length (m_content firstUserMessage) > 50 then str ''...''
                                   else [])\<rparr>)
                    else updatedConversation)
             in (s\<lparr>conversations :=
                      map (\<lambda>c. if Some (c_id c) = currentConversationId s
                                then updatedConversation' else c)
                        (conversations s)\<rparr>,
                 saveConversation js cfg now_created now_store updatedConversation' ls)))"

definition renameConversation ::
  "builtins \<Rightarrow> config \<Rightarrow> jstring \<Rightarrow> jstring \<Rightarrow> int \<Rightarrow> int \<Rightarrow> int \<Rightarrow> int \<Rightarrow> state \<Rightarrow> localStorage \<Rightarrow>
   state \<times> localStorage" where
  "renameConversation js cfg cid title now now_arg now_created now_store s ls =
     (s\<lparr>conversations :=
          map (\<lambda>c. if c_id c = cid then c\<lparr>c_title := title, c_updatedAt := T_date (Date now)\<rparr>
                    else c)
            (conversations s)\<rparr>,
      (case List.find (\<lambda>c. c_id c = cid) (conversations s) of
         None \<Rightarrow> ls
       | Some conversation \<Rightarrow>
           saveConversation js cfg now_created now_store
             (conversation\<lparr>c_title := title, c_updatedAt := T_date (Date now_arg)\<rparr>) ls))"

text \<open>Concrete models, parameters, states and gateways for the examples.\<close>

definition gpt35 :: AIModel where
  "gpt35 =
     \<lparr>am_id = str ''gpt-3.5-turbo'', am_name = str ''GPT-3.5 Turbo'', am_provider = str ''OpenAI'',
      am_description = str ''Fast and efficient for most tasks'', am_category = Some Cat_text,
      am_contextLength = Some 16385, am_pricing = Some (1 / 1000, 2 / 1000)\<rparr>"

definition defaultParameters :: AIParameters where
  "defaultParameters =
     \<lparr>temperature = 7 / 10, maxTokens = 2048, topP = 1, presencePenalty = 0,
      frequencyPenalty = 0\<rparr>"

definition state0 :: state where
  "state0 =
     \<lparr>models = [gpt35], selectedModel = Some gpt35, templates = [], messages = [],
      conversations = [], currentConversationId = None, currentPrompt = [],
      parameters = defaultParameters, uploadedFiles = [], isLoading = False,
      isGenerating = False, error = None,
      settings = \<lparr>autoSave = True, autoTitle = True, showTokenCount = True,
                   enableSound = False\<rparr>\<rparr>"

definition fresh0 :: fresh where
  "fresh0 =
     \<lparr>user_id = str ''1000u'', user_time = 1000, conv_id = str ''1000c'', conv_created = 1000,
      conv_updated = 1000, temp_time = 1000, reply_id = str ''2000a'', reply_time = 2000\<rparr>"

definition no_network :: "jstring \<Rightarrow> ChatMessage list \<Rightarrow> AIModel \<Rightarrow> AIParameters \<Rightarrow> jstring + AIResponse" where
  "no_network p ms m ps = Inl (str ''Failed to fetch'')"

definition user_message :: "string \<Rightarrow> string \<Rightarrow> int \<Rightarrow> ChatMessage" where
  "user_message i c t =
     \<lparr>m_id = str i, m_role = User, m_content = str c, m_timestamp = T_date (Date t),
      m_model = Some (str ''GPT-3.5 Turbo''), m_tokens = None, m_files = None\<rparr>"

definition assistant_message :: "string \<Rightarrow> string \<Rightarrow> int \<Rightarrow> ChatMessage" where
  "assistant_message i c t =
     \<lparr>m_id = str i, m_role = Assistant, m_content = str c, m_timestamp = T_date (Date t),
      m_model = Some (str ''GPT-3.5 Turbo''),
      m_tokens = Some \<lparr>tk_prompt = 1, tk_completion = 50, tk_total = 51\<rparr>, m_files = None\<rparr>"

definition chat2 :: state where
  "chat2 = state0\<lparr>messages := [user_message ''m1'' ''Hi'' 0, assistant_message ''m2'' ''Hello!'' 1000]\<rparr>"

definition chat1 :: state where
  "chat1 = state0\<lparr>messages := [assistant_message ''m2'' ''Hello!'' 1000]\<rparr>"

definition mock_gateway :: gateway where
  "mock_gateway = generateResponse js0 cfg_off no_network draw_zero draw_zero draw_half"


definition ls0 :: localStorage where
  "ls0 = \<lparr>ls_conversations = Missing, ls_templates = Missing, ls_full = False\<rparr>"

definition new_conversation :: "string \<Rightarrow> int \<Rightarrow> Conversation" where
  "new_conversation i t =
     \<lparr>c_id = str i, c_title = str ''New Conversation'', c_messages = [],
      c_createdAt = T_date (Date t), c_updatedAt = T_date (Date t), c_model = None,
      c_totalTokens = None\<rparr>"

definition long_question :: ChatMessage where
  "long_question =
     \<lparr>m_id = str ''m1'', m_role = User, m_content = replicate 80 0x61,
      m_timestamp = T_date (Date 0), m_model = Some (str ''GPT-3.5 Turbo''), m_tokens = None,
      m_files = None\<rparr>"

definition untitled2 :: state where
  "untitled2 =
     state0\<lparr>conversations := [new_conversation ''c1'' 0],
            currentConversationId := Some (str ''c1''),
            messages := [long_question, assistant_message ''m2'' ''Hello!'' 1000]\<rparr>"


text \<open>More concrete inputs for the examples.\<close>

definition notes_file :: ProcessedFile where
  "notes_file =
     \<lparr>pf_id = str ''f1'', pf_name = str ''notes.txt'', pf_type = str ''text/plain'', pf_size = 5,
      pf_content = str ''hello'', pf_preview = None, pf_metadata = None,
      pf_uploadedAt = T_date (Date 0)\<rparr>"

definition staged1 :: state where
  "staged1 =
     state0\<lparr>conversations := [new_conversation ''c1'' 0],
            currentConversationId := Some (str ''c1''),
            currentPrompt := str ''Summarize'',
            uploadedFiles := [notes_file]\<rparr>"

text \<open>The same file and prompt staged in a new session, where no conversation is active.\<close>

definition staged_new :: state where
  "staged_new = state0\<lparr>currentPrompt := str ''Summarize'', uploadedFiles := [notes_file]\<rparr>"

text \<open>
  What the round trip of the spec compares in a message: its role, its content, and the
  date its timestamp stands for.
\<close>

definition message_view :: "builtins \<Rightarrow> ChatMessage \<Rightarrow> role \<times> jstring \<times> date" where
  "message_view js m = (m_role m, m_content m, new_Date js (m_timestamp m))"

definition template0 :: PromptTemplate where
  "template0 =
     \<lparr>t_id = str ''t1'', t_name = str ''Summary'', t_content = str ''Summarize: {text}'',
      t_category = str ''General'', t_tags = None, t_createdAt = T_date (Date 0),
      t_usageCount = Some 0\<rparr>"

definition clock0 :: "nat \<Rightarrow> import_clock" where
  "clock0 i =
     \<lparr>ic_id = 1000, ic_created = 1000, ic_updated = 1000, ic_store_created = 1000,
      ic_store_updated = 1000\<rparr>"

definition undated_message :: ChatMessage where
  "undated_message =
     \<lparr>m_id = str ''m1'', m_role = User, m_content = str ''Hi'', m_timestamp = T_undefined,
      m_model = None, m_tokens = None, m_files = None\<rparr>"

definition undated_import :: imported where
  "undated_import =
     \<lparr>i_id = Some (str ''c1''), i_title = Some (str ''Notes''),
      i_messages = Some [undated_message], i_createdAt = T_undefined,
      i_updatedAt = T_undefined, i_model = None, i_totalTokens = None\<rparr>"

definition ls_undated :: localStorage where
  "ls_undated = snd (importConversations js0 cfg_on clock0 (Json_object undated_import) ls0)"

definition dated_import :: imported where
  "dated_import =
     \<lparr>i_id = Some (str ''c1''), i_title = Some (str ''Notes''),
      i_messages = Some [user_message ''m1'' ''Hi'' 0, assistant_message ''m2'' ''Hello!'' 1000],
      i_createdAt = T_string (str ''1970-01-01T00:00:00.000Z''),
      i_updatedAt = T_string (str ''1970-01-01T00:00:01.000Z''), i_model = None,
      i_totalTokens = None\<rparr>"

definition ls_dated :: localStorage where
  "ls_dated = snd (importConversations js0 cfg_on clock0 (Json_object dated_import) ls0)"

text \<open>Exporting a conversation as JSON and importing the exported text.\<close>

definition round_trip ::
  "builtins \<Rightarrow> config \<Rightarrow> (nat \<Rightarrow> import_clock) \<Rightarrow> jstring \<Rightarrow> localStorage \<Rightarrow> localStorage option" where
  "round_trip js cfg clock cid ls =
     (case exportConversation js cfg cid Format_json ls of
        Inl e \<Rightarrow> None
      | Inr e \<Rightarrow> Some (snd (importConversations js cfg clock (parse_exported e) ls)))"

text \<open>The messages of a stored conversation, as \<open>message_view\<close> shows them.\<close>

definition stored_messages ::
  "builtins \<Rightarrow> config \<Rightarrow> jstring \<Rightarrow> localStorage \<Rightarrow> (role \<times> jstring \<times> date) list option" where
  "stored_messages js cfg cid ls =
     map_option (\<lambda>c. map (message_view js) (c_messages c)) (getConversation js cfg cid ls)"

text \<open>
  Sequences of the operations that write \<open>updatedAt\<close>: saving the current
  conversation (also what the auto-save timer runs) and renaming. Each carries its clock
  readings; \<open>op_clock\<close> is the one written into the conversation in memory.
\<close>

datatype operation =
    Save_current int int int
  | Rename jstring jstring int int int int

fun op_clock :: "operation \<Rightarrow> int" where
  "op_clock (Save_current now now_created now_store) = now"
| "op_clock (Rename cid title now now_arg now_created now_store) = now"

fun apply_operation ::
  "builtins \<Rightarrow> config \<Rightarrow> operation \<Rightarrow> state \<times> localStorage \<Rightarrow> state \<times> localStorage" where
  "apply_operation js cfg (Save_current now now_created now_store) (s, ls) =
     saveCurrentConversation js cfg now now_created now_store s ls"
| "apply_operation js cfg (Rename cid title now now_arg now_created now_store) (s, ls) =
     renameConversation js cfg cid title now now_arg now_created now_store s ls"

fun run ::
  "builtins \<Rightarrow> config \<Rightarrow> operation list \<Rightarrow> state \<times> localStorage \<Rightarrow> state \<times> localStorage" where
  "run js cfg [] w = w"
| "run js cfg (operation # operations) w = run js cfg operations (apply_operation js cfg operation w)"

definition renamed_active :: state where
  "renamed_active = untitled2\<lparr>conversations := [new_conversation ''c1'' 1000]\<rparr>"

definition rename_2000 :: "operation list" where
  "rename_2000 = [Rename (str ''c1'') (str ''Renamed'') 2000 2000 2000 2000]"

definition save_3000 :: "operation list" where
  "save_3000 = [Save_current 3000 3000 3000]"

definition hello_new :: state where
  "hello_new = state0\<lparr>currentPrompt := str ''Hello''\<rparr>"

definition hello_active :: state where
  "hello_active =
     state0\<lparr>conversations := [new_conversation ''c1'' 0],
            currentConversationId := Some (str ''c1''),
            currentPrompt := str ''Hello''\<rparr>"

section \<open>Properties of file ingestion\<close>

lemma split_not_Nil: "split sep s \<noteq> []"
  by (induction s) (auto split: list.splits)

lemma loop_map_filter:
  "processMultipleFiles_loop js cfg stamp i files results =
     results @ List.map_filter (processed_of js cfg stamp) (zip [i ..< i + length files] files)"
proof (induction files arbitrary: i results)
  case Nil
  show ?case by simp
next
  case (Cons f fs)
  have upt: "[i ..< i + length (f # fs)] = i # [Suc i ..< Suc i + length fs]"
    by (simp add: upt_rec)
  show ?case
    unfolding upt
    by (cases "processFile js cfg (fst (stamp i)) (snd (stamp i)) f")
       (simp_all add: Cons.IH processed_of_def)
qed


lemma json_csv_are_text: "isTextFile (str ''.json'')" "isTextFile (str ''.csv'')"
  by (simp_all add: isTextFile_def supportedTypes_text_def supportedTypes_code_def str_def)

lemma processFile_disabled:
  "\<not> enableFileUpload cfg \<Longrightarrow> processFile js cfg new_id now file = Inl Upload_disabled"
  by (simp add: processFile_def)

lemma processFile_too_large:
  "enableFileUpload cfg \<Longrightarrow> maxFileSize < f_size file \<Longrightarrow>
     processFile js cfg new_id now file = Inl Size_limit"
  by (simp add: processFile_def)

lemma processFile_unsupported:
  "enableFileUpload cfg \<Longrightarrow> f_size file \<le> maxFileSize \<Longrightarrow>
   \<not> isTypeSupported (extension_of js file) \<Longrightarrow>
     processFile js cfg new_id now file = Inl (Unsupported_type (extension_of js file))"
  by (simp add: processFile_def)

lemma processFile_accepts:
  assumes "enableFileUpload cfg" "f_size file \<le> maxFileSize"
    "isTypeSupported (extension_of js file)" "f_text file = Some t" "f_dataURL file = Some u"
  shows "\<exists>p. processFile js cfg new_id now file = Inr p \<and> pf_name p = f_name file
              \<and> pf_size p = f_size file"
  using assms
  by (simp add: processFile_def Let_def readTextFile_def processImage_def
        createImagePreview_def)

lemma ext_txt: "extension_of js0 (file_of ''notes.txt'' n) = str ''.txt''"
  by (simp add: extension_of_def js0_def file_of_def str_def ascii_lower_def)

lemma ext_exe: "extension_of js0 (file_of ''tool.exe'' n) = str ''.exe''"
  by (simp add: extension_of_def js0_def file_of_def str_def ascii_lower_def)

lemma ext_md: "extension_of js0 (file_of ''c.md'' n) = str ''.md''"
  by (simp add: extension_of_def js0_def file_of_def str_def ascii_lower_def)

lemma sup_txt: "isTypeSupported (str ''.txt'')" "isTextFile (str ''.txt'')"
  by (simp_all add: isTypeSupported_def isTextFile_def supportedTypes_text_def str_def)

lemma sup_md: "isTypeSupported (str ''.md'')" "isTextFile (str ''.md'')"
  by (simp_all add: isTypeSupported_def isTextFile_def supportedTypes_text_def str_def)

lemma sup_exe: "\<not> isTypeSupported (str ''.exe'')"
  by (simp add: isTypeSupported_def supportedTypes_text_def supportedTypes_document_def
    supportedTypes_image_def supportedTypes_code_def str_def)

lemma enabled_on: "enableFileUpload cfg_on" "\<not> enableFileUpload cfg_off"
  by (simp_all add: cfg_on_def cfg_off_def)

lemma file_of_sel: "f_size (file_of name n) = n" "f_text (file_of name n) = Some (str ''hello'')"
  "f_dataURL (file_of name n) = Some (str ''data:'')" "f_name (file_of name n) = str name"
  "f_type (file_of name n) = str ''text/plain''"
  by (simp_all add: file_of_def)

text \<open>
  Claim C8, as the code has it. \<open>processFile\<close> first tests the upload toggle, then the
  size, then the extension. With uploads enabled: the ceiling is 10 MiB; a file above
  it is rejected with the size-limit error; a file within it (so also one of exactly
  10 MiB) whose extension is in none of the four lists is rejected with the
  unsupported-type error; and a file within it whose extension is listed and whose
  content the reader delivers is accepted.
\<close>

theorem processFile_size_and_type_checks:
  "enableFileUpload cfg \<Longrightarrow>
     maxFileSize = 10 * 1024 * 1024 \<and>
     (maxFileSize < f_size file \<longrightarrow> processFile js cfg new_id now file = Inl Size_limit) \<and>
     (f_size file \<le> maxFileSize \<and> \<not> isTypeSupported (extension_of js file) \<longrightarrow>
        processFile js cfg new_id now file = Inl (Unsupported_type (extension_of js file))) \<and>
     (f_size file \<le> maxFileSize \<and> isTypeSupported (extension_of js file) \<and>
      f_text file \<noteq> None \<and> f_dataURL file \<noteq> None \<longrightarrow>
        (\<exists>p. processFile js cfg new_id now file = Inr p \<and> pf_name p = f_name file
              \<and> pf_size p = f_size file))"
  using processFile_too_large [of cfg "file" js new_id now]
    processFile_unsupported [of cfg "file" js new_id now]
    processFile_accepts [of cfg "file" js _ _ new_id now]
  by (auto simp add: maxFileSize_def)

text \<open>
  The theorem at three files: one byte over the ceiling, an unlisted extension at the
  ceiling, and a text file of exactly the ceiling.
\<close>

theorem processFile_size_and_type_checks_witness:
  "enableFileUpload cfg_on \<and>
   processFile js0 cfg_on (str ''id'') 0 (file_of ''notes.txt'' (maxFileSize + 1)) = Inl Size_limit \<and>
   processFile js0 cfg_on (str ''id'') 0 (file_of ''tool.exe'' maxFileSize)
     = Inl (Unsupported_type (str ''.exe'')) \<and>
   (\<exists>p. processFile js0 cfg_on (str ''id'') 0 (file_of ''notes.txt'' maxFileSize) = Inr p
        \<and> pf_size p = maxFileSize)"
proof -
  have on: "enableFileUpload cfg_on" by (simp add: cfg_on_def)
  have a: "processFile js0 cfg_on (str ''id'') 0 (file_of ''notes.txt'' (maxFileSize + 1)) = Inl Size_limit"
    using processFile_size_and_type_checks [OF on, of "file_of ''notes.txt'' (maxFileSize + 1)" js0 "str ''id''" 0]
    by (simp add: file_of_sel)
  have b: "processFile js0 cfg_on (str ''id'') 0 (file_of ''tool.exe'' maxFileSize)
     = Inl (Unsupported_type (str ''.exe''))"
    using processFile_size_and_type_checks [OF on, of "file_of ''tool.exe'' maxFileSize" js0 "str ''id''" 0]
    by (simp add: file_of_sel ext_exe sup_exe)
  have c: "\<exists>p. processFile js0 cfg_on (str ''id'') 0 (file_of ''notes.txt'' maxFileSize) = Inr p
        \<and> pf_size p = maxFileSize"
    using processFile_size_and_type_checks [OF on, of "file_of ''notes.txt'' maxFileSize" js0 "str ''id''" 0]
    by (auto simp add: file_of_sel ext_txt sup_txt)
  from on a b c show ?thesis by blast
qed

text \<open>
  Claim C8 as stated fails: with uploads disabled a file one byte over the ceiling is
  not rejected with the size-limit error, and a file of exactly the ceiling is rejected;
  with uploads enabled a file with an unlisted extension that is over the ceiling gets
  the size-limit error, not the unsupported-type error.
\<close>

theorem processFile_checks_counterexample:
  "processFile js0 cfg_off (str ''id'') 0 (file_of ''notes.txt'' (maxFileSize + 1)) \<noteq> Inl Size_limit \<and>
   (\<not> isTypeSupported (extension_of js0 (file_of ''tool.exe'' (maxFileSize + 1))) \<and>
    processFile js0 cfg_on (str ''id'') 0 (file_of ''tool.exe'' (maxFileSize + 1)) = Inl Size_limit) \<and>
   processFile js0 cfg_off (str ''id'') 0 (file_of ''notes.txt'' maxFileSize) = Inl Upload_disabled"
  by (simp add: processFile_disabled enabled_on processFile_too_large ext_exe sup_exe file_of_sel)

text \<open>
  Claim C9. The batch never rejects: it returns the files whose processing succeeds,
  each processed on its own, in input order; a file whose processing fails is left out.
\<close>

theorem processMultipleFiles_skips_failures:
  "processMultipleFiles js cfg stamp files =
     Inr (List.map_filter (processed_of js cfg stamp) (zip [0 ..< length files] files))"
  using loop_map_filter [of js cfg stamp 0 files "[]"]
  by (simp add: processMultipleFiles_def)

text \<open>A batch of three files whose second one has an unlisted extension.\<close>

theorem processMultipleFiles_skips_failures_witness:
  "processMultipleFiles js0 cfg_on stamp0
     [file_of ''notes.txt'' 5, file_of ''tool.exe'' 5, file_of ''c.md'' 7]
   = Inr [\<lparr>pf_id = str ''0'', pf_name = str ''notes.txt'', pf_type = str ''text/plain'',
           pf_size = 5, pf_content = str ''hello'', pf_preview = None, pf_metadata = None,
           pf_uploadedAt = T_date (Date 0)\<rparr>,
          \<lparr>pf_id = str ''2'', pf_name = str ''c.md'', pf_type = str ''text/plain'',
           pf_size = 7, pf_content = str ''hello'', pf_preview = None, pf_metadata = None,
           pf_uploadedAt = T_date (Date 2)\<rparr>]"
  unfolding processMultipleFiles_skips_failures
  apply (simp add: upt_rec List.map_filter_simps processed_of_def processFile_def
        ext_txt ext_exe ext_md sup_txt sup_exe sup_md enabled_on maxFileSize_def file_of_sel
        readTextFile_def)
  apply (simp add: stamp0_def digit_def str_def)
  done

section \<open>Properties of the gateway and of the conversation state\<close>

lemma start_nothing_to_send:
  "trim (currentPrompt s) = [] \<Longrightarrow> uploadedFiles s = [] \<Longrightarrow>
     sendMessage_start fr s = Inl (s\<lparr>error := Some (str ''Please enter a message or upload files'')\<rparr>)"
  unfolding sendMessage_start_def by (simp only: simp_thms if_True)

lemma start_no_model:
  "selectedModel s = None \<Longrightarrow> \<not> (trim (currentPrompt s) = [] \<and> uploadedFiles s = []) \<Longrightarrow>
     sendMessage_start fr s = Inl (s\<lparr>error := Some (str ''Please select a model'')\<rparr>)"
  unfolding sendMessage_start_def by (simp only: simp_thms if_False option.case)

lemma sendMessage_Inl: "sendMessage_start fr s = Inl s' \<Longrightarrow> sendMessage gw fr s = s'"
  by (simp add: sendMessage_def)

lemma str_nonempty: "str (c # cs) \<noteq> []"
  by (simp add: str_def)

text \<open>
  Claim C3. When no model is selected, or the prompt is empty or white space only and no
  attachment is staged, \<open>sendMessage\<close> stops at its validation: the result is the
  state it started from with only the error string set, so the message list, the staged
  attachments, the input buffer and the active conversation identifier are unchanged;
  the synchronous part returns no request for the gateway, and the result is the same
  whatever the gateway is.
\<close>

theorem sendMessage_validation:
  "selectedModel s = None \<or> (trim (currentPrompt s) = [] \<and> uploadedFiles s = []) \<Longrightarrow>
     (\<exists>m. m \<noteq> [] \<and> sendMessage gw fr s = s\<lparr>error := Some m\<rparr>) \<and>
     messages (sendMessage gw fr s) = messages s \<and>
     uploadedFiles (sendMessage gw fr s) = uploadedFiles s \<and>
     currentPrompt (sendMessage gw fr s) = currentPrompt s \<and>
     currentConversationId (sendMessage gw fr s) = currentConversationId s \<and>
     sendMessage_start fr s = Inl (sendMessage gw fr s)"
proof (cases "trim (currentPrompt s) = [] \<and> uploadedFiles s = []")
  case True
  then have st: "sendMessage_start fr s
      = Inl (s\<lparr>error := Some (str ''Please enter a message or upload files'')\<rparr>)"
    by (simp add: start_nothing_to_send)
  have eq: "sendMessage gw fr s = s\<lparr>error := Some (str ''Please enter a message or upload files'')\<rparr>"
    by (rule sendMessage_Inl [OF st])
  have ne: "str ''Please enter a message or upload files'' \<noteq> []" by (rule str_nonempty)
  show ?thesis using st ne unfolding eq by auto
next
  case False
  assume "selectedModel s = None \<or> (trim (currentPrompt s) = [] \<and> uploadedFiles s = [])"
  with False have "selectedModel s = None" by blast
  then have st: "sendMessage_start fr s = Inl (s\<lparr>error := Some (str ''Please select a model'')\<rparr>)"
    using False by (rule start_no_model)
  have eq: "sendMessage gw fr s = s\<lparr>error := Some (str ''Please select a model'')\<rparr>"
    by (rule sendMessage_Inl [OF st])
  have ne: "str ''Please select a model'' \<noteq> []" by (rule str_nonempty)
  show ?thesis using st ne unfolding eq by auto
qed

lemma state0_sel: "currentPrompt state0 = []" "uploadedFiles state0 = []" "messages state0 = []"
  "selectedModel state0 = Some gpt35" "currentConversationId state0 = None"
  "parameters state0 = defaultParameters" "conversations state0 = []"
  by (simp_all add: state0_def)

text \<open>The theorem at a state with an empty prompt and no staged attachment.\<close>

theorem sendMessage_validation_witness:
  "(trim (currentPrompt state0) = [] \<and> uploadedFiles state0 = []) \<and>
   sendMessage mock_gateway fresh0 state0
     = state0\<lparr>error := Some (str ''Please enter a message or upload files'')\<rparr> \<and>
   sendMessage_start fresh0 state0 = Inl (sendMessage mock_gateway fresh0 state0)"
proof -
  have h: "trim (currentPrompt state0) = [] \<and> uploadedFiles state0 = []"
    by (simp add: state0_sel trim_def)
  have e: "sendMessage mock_gateway fresh0 state0
     = state0\<lparr>error := Some (str ''Please enter a message or upload files'')\<rparr>"
    using h by (simp add: sendMessage_Inl start_nothing_to_send)
  from sendMessage_validation [of state0 mock_gateway fresh0] h e show ?thesis by blast
qed

lemma findIndex_Some:
  "findIndex p xs = Some i \<Longrightarrow> i < length xs \<and> p (xs ! i) \<and> (\<forall>j<i. \<not> p (xs ! j))"
proof (induction xs arbitrary: i)
  case Nil
  then show ?case by simp
next
  case (Cons x xs)
  show ?case
  proof (cases "p x")
    case True
    with Cons.prems show ?thesis by simp
  next
    case False
    with Cons.prems obtain k where k: "findIndex p xs = Some k" "i = Suc k"
      by (auto split: option.splits)
    from Cons.IH [OF k(1)] False k(2) show ?thesis
      by (auto simp add: less_Suc_eq_0_disj)
  qed
qed

lemma findIndex_None: "(findIndex p xs = None) = (\<forall>x\<in>set xs. \<not> p x)"
  by (induction xs) (auto split: option.splits)

lemma findLastIndex_Some:
  assumes "findLastIndex p xs = Some i"
  shows "i < length xs \<and> p (xs ! i) \<and> (\<forall>j. i < j \<and> j < length xs \<longrightarrow> \<not> p (xs ! j))"
proof -
  from assms obtain k where k: "findIndex p (rev xs) = Some k" "i = length xs - 1 - k"
    by (auto simp add: findLastIndex_def split: option.splits)
  from findIndex_Some [OF k(1)]
  have kl: "k < length xs" and pk: "p (rev xs ! k)" and before: "\<forall>j<k. \<not> p (rev xs ! j)"
    by simp_all
  have i: "i < length xs" using kl k(2) by simp
  have "rev xs ! k = xs ! i" using kl k(2) by (simp add: rev_nth)
  with pk have pi: "p (xs ! i)" by simp
  have "\<not> p (xs ! j)" if "i < j" "j < length xs" for j
  proof -
    have "length xs - 1 - j < k" using that k(2) kl by simp
    with before have "\<not> p (rev xs ! (length xs - 1 - j))" by blast
    moreover have "rev xs ! (length xs - 1 - j) = xs ! j"
      using that by (simp add: rev_nth)
    ultimately show ?thesis by simp
  qed
  with i pi show ?thesis by blast
qed

lemma findLastIndex_None: "(findLastIndex p xs = None) = (\<forall>x\<in>set xs. \<not> p x)"
proof -
  have "(findLastIndex p xs = None) = (findIndex p (rev xs) = None)"
    by (simp add: findLastIndex_def split: option.splits)
  also have "\<dots> = (\<forall>x\<in>set xs. \<not> p x)"
    by (simp add: findIndex_None)
  finally show ?thesis .
qed

lemma regenerate_step:
  assumes "2 \<le> length (messages s)"
    and "findLastIndex (\<lambda>msg. m_role msg = Assistant) (messages s) = Some i"
  shows "regenerateLastMessage gw fr s =
     (case gw (take i (messages s)) (selectedModel s) (parameters s) of
        Inr response \<Rightarrow>
          if r_success response
          then addMessage (uploadedFiles s) (reply_id fr) (reply_time fr)
                 \<lparr>n_role = Assistant, n_content = r_content response,
                  n_model = map_option am_name (selectedModel s),
                  n_tokens = usage_tokens (r_usage response), n_files = None\<rparr>
                 (s\<lparr>messages := take i (messages s), isGenerating := True\<rparr>)
          else s\<lparr>messages := take i (messages s), isGenerating := True,
                 error := Some (error_or (r_error response) (str ''Failed to regenerate response''))\<rparr>
      | Inl m \<Rightarrow> s\<lparr>messages := take i (messages s), isGenerating := True, error := Some m\<rparr>)
     \<lparr>isGenerating := False\<rparr>"
  using assms unfolding regenerateLastMessage_def Let_def
  by (simp split: sum.splits)

lemma addMessage_messages:
  "messages (addMessage captured i t msg s) =
     messages s @ [\<lparr>m_id = i, m_role = n_role msg, m_content = n_content msg,
                    m_timestamp = T_date (Date t), m_model = n_model msg, m_tokens = n_tokens msg,
                    m_files = (if captured \<noteq> [] then Some captured else None)\<rparr>]"
  by (simp add: addMessage_def Let_def)

text \<open>
  Claim C2, as the code has it. For a message list of at least two messages, one of
  them from the assistant, \<open>regenerateLastMessage\<close> cuts the list just before the last
  assistant message, calls the gateway with the messages kept, and appends exactly one
  new assistant message when the gateway succeeds; when the gateway fails or throws,
  the list stays cut and the error is set.
\<close>

theorem regenerateLastMessage_replaces_last_assistant:
  assumes "2 \<le> length (messages s)" and "\<exists>m\<in>set (messages s). m_role m = Assistant"
  shows "\<exists>i kept. i < length (messages s) \<and> m_role (messages s ! i) = Assistant \<and>
       (\<forall>j. i < j \<and> j < length (messages s) \<longrightarrow> m_role (messages s ! j) \<noteq> Assistant) \<and>
       kept = take i (messages s) \<and>
       (case gw kept (selectedModel s) (parameters s) of
          Inr response \<Rightarrow>
            if r_success response
            then (\<exists>new. messages (regenerateLastMessage gw fr s) = kept @ [new] \<and>
                        m_role new = Assistant \<and> m_content new = r_content response)
            else messages (regenerateLastMessage gw fr s) = kept \<and>
                 error (regenerateLastMessage gw fr s) \<noteq> None
        | Inl m \<Rightarrow> messages (regenerateLastMessage gw fr s) = kept \<and>
                   error (regenerateLastMessage gw fr s) = Some m)"
proof -
  from assms(2) obtain i where i: "findLastIndex (\<lambda>msg. m_role msg = Assistant) (messages s) = Some i"
    using findLastIndex_None [of "\<lambda>msg. m_role msg = Assistant" "messages s"] by auto
  note last = findLastIndex_Some [OF i]
  have res: "case gw (take i (messages s)) (selectedModel s) (parameters s) of
          Inr response \<Rightarrow>
            if r_success response
            then (\<exists>new. messages (regenerateLastMessage gw fr s) = take i (messages s) @ [new] \<and>
                        m_role new = Assistant \<and> m_content new = r_content response)
            else messages (regenerateLastMessage gw fr s) = take i (messages s) \<and>
                 error (regenerateLastMessage gw fr s) \<noteq> None
        | Inl m \<Rightarrow> messages (regenerateLastMessage gw fr s) = take i (messages s) \<and>
                   error (regenerateLastMessage gw fr s) = Some m"
    unfolding regenerate_step [OF assms(1) i]
    by (simp add: addMessage_messages split: sum.splits)
  from last res show ?thesis by blast
qed

lemma join_nonempty: "sep \<noteq> [] \<Longrightarrow> join sep (x # y # ys) \<noteq> []"
  by simp

lemma mock_responses_nonempty:
  "mock_response_0 js p m ps \<noteq> []" "mock_response_1 js p m ps \<noteq> []" "mock_response_2 js p m ps \<noteq> []"
  by (simp_all add: mock_response_0_def mock_response_1_def mock_response_2_def nl_def)

text \<open>
  Rounding to a double. \<open>ulp\<close> is read off the binade of its argument; a multiple of
  \<open>ulp\<close> in its binade is a double; the rounded value of a number below a double stays
  below it when the number is further than half an \<open>ulp\<close> away.
\<close>

lemma pow2_powr: "pow2 e = 2 powr of_int e"
proof (cases "0 \<le> e")
  case True
  then show ?thesis by (simp add: pow2_def powr_real_of_int)
next
  case False
  then show ?thesis by (simp add: pow2_def powr_real_of_int inverse_eq_divide)
qed

lemma pow2_pos: "0 < pow2 e"
  by (simp add: pow2_powr)

lemma pow2_add: "pow2 (a + b) = pow2 a * pow2 b"
  by (simp add: pow2_powr powr_add)

lemma pow2_mono: "a \<le> b \<Longrightarrow> pow2 a \<le> pow2 b"
  by (simp add: pow2_powr)

lemma floor_log2: "0 < x \<Longrightarrow> \<lfloor>log 2 x\<rfloor> = e \<longleftrightarrow> pow2 e \<le> x \<and> x < pow2 (e + 1)"
  by (simp add: floor_log_eq_powr_iff pow2_powr)

lemma ulp_eq:
  assumes "pow2 e \<le> x" "x < pow2 (e + 1)" "- 1022 \<le> e"
  shows "ulp x = pow2 (e - 52)"
proof -
  have "0 < x" using assms(1) pow2_pos [of e] by linarith
  then have "\<lfloor>log 2 x\<rfloor> = e" using assms by (simp add: floor_log2)
  then show ?thesis using assms(3) by (simp add: ulp_def)
qed

lemma round_half_even_int: "round_half_even (of_int k) = k"
  by (simp add: round_half_even_def)

lemma to_double_exact:
  assumes "pow2 e \<le> x" "x < pow2 (e + 1)" "- 1022 \<le> e" "x = of_int k * pow2 (e - 52)"
  shows "to_double x = x"
proof -
  have pos: "0 < x" using assms(1) pow2_pos [of e] by linarith
  have u: "ulp x = pow2 (e - 52)" using assms by (simp add: ulp_eq)
  have "x / pow2 (e - 52) = of_int k" using assms(4) pow2_pos [of "e - 52"] by simp
  then show ?thesis using pos u assms(4) by (simp add: to_double_def round_half_even_int)
qed

lemma to_double_100: "to_double 100 = 100"
  by (rule to_double_exact [of 6 _ "100 * 2 ^ 46"]) (simp_all add: pow2_def)

lemma round_half_even_le: "q \<le> of_int k \<Longrightarrow> round_half_even q \<le> k"
proof -
  assume q: "q \<le> of_int k"
  have f: "of_int \<lfloor>q\<rfloor> \<le> q" by simp
  have "\<lfloor>q\<rfloor> \<le> k" using q by (simp add: floor_le_iff)
  then consider "\<lfloor>q\<rfloor> = k" | "\<lfloor>q\<rfloor> + 1 \<le> k" by linarith
  then show ?thesis
  proof cases
    case 1
    then have "q = of_int k" using q f by simp
    then show ?thesis by (simp add: round_half_even_int)
  next
    case 2
    then show ?thesis by (simp add: round_half_even_def Let_def)
  qed
qed

lemma round_half_even_less: "q < of_int k - 1 / 2 \<Longrightarrow> round_half_even q < k"
proof -
  assume q: "q < of_int k - 1 / 2"
  have "\<lfloor>q\<rfloor> < k" using q by (simp add: floor_less_iff)
  moreover have "\<lfloor>q\<rfloor> + 1 < k" if "1 / 2 \<le> q - of_int \<lfloor>q\<rfloor>"
  proof -
    have "of_int \<lfloor>q\<rfloor> < (of_int k :: real) - 1" using that q by linarith
    then have "(of_int (\<lfloor>q\<rfloor> + 1) :: real) < of_int k" by simp
    then show ?thesis by (simp only: of_int_less_iff)
  qed
  ultimately show ?thesis by (auto simp add: round_half_even_def Let_def)
qed

lemma to_double_below:
  assumes "0 < x" "x < pow2 e" "- 1021 \<le> e"
  shows "to_double x \<le> pow2 e"
proof -
  define e' where "e' = max \<lfloor>log 2 x\<rfloor> (- 1022)"
  have u: "ulp x = pow2 (e' - 52)" by (simp add: ulp_def e'_def)
  have "x < pow2 (\<lfloor>log 2 x\<rfloor> + 1)" using floor_log2 [of x "\<lfloor>log 2 x\<rfloor>"] assms(1) by simp
  also have "\<dots> \<le> pow2 (e' + 1)" by (rule pow2_mono) (simp add: e'_def)
  finally have x: "x < pow2 (e' + 1)" .
  have "\<not> pow2 e \<le> pow2 \<lfloor>log 2 x\<rfloor>"
    using floor_log2 [of x "\<lfloor>log 2 x\<rfloor>"] assms(1,2) by simp
  then have "\<not> e \<le> \<lfloor>log 2 x\<rfloor>" using pow2_mono by blast
  then have e: "e' + 1 \<le> e" using assms(3) by (simp add: e'_def)
  have "pow2 53 = of_int (2 ^ 53)" by (simp add: pow2_def)
  then have split: "pow2 (e' + 1) = of_int (2 ^ 53) * pow2 (e' - 52)"
    using pow2_add [of 53 "e' - 52"] by (simp add: add.commute)
  have "x / pow2 (e' - 52) \<le> of_int (2 ^ 53)"
    using x split pow2_pos [of "e' - 52"] by (simp add: pos_divide_le_eq)
  then have "round_half_even (x / pow2 (e' - 52)) \<le> 2 ^ 53" by (rule round_half_even_le)
  then have "(of_int (round_half_even (x / pow2 (e' - 52))) :: real) \<le> of_int (2 ^ 53)"
    by (simp only: of_int_le_iff)
  then have "of_int (round_half_even (x / pow2 (e' - 52))) * pow2 (e' - 52) \<le> pow2 (e' + 1)"
    using pow2_pos [of "e' - 52"] by (simp only: split mult_le_cancel_right_pos)
  also have "\<dots> \<le> pow2 e" using e by (rule pow2_mono)
  finally show ?thesis using assms(1) u by (simp add: to_double_def)
qed

lemma to_double_less:
  assumes "0 \<le> x" "x < of_int k * pow2 (e - 52) - pow2 (e - 52) / 2"
    and "pow2 e < of_int k * pow2 (e - 52)" "of_int k * pow2 (e - 52) \<le> pow2 (e + 1)"
    and "- 1021 \<le> e"
  shows "to_double x < of_int k * pow2 (e - 52)"
proof -
  let ?u = "pow2 (e - 52)"
  have up: "0 < ?u" by (rule pow2_pos)
  consider "x = 0" | "0 < x" "x < pow2 e" | "pow2 e \<le> x" using assms(1) by linarith
  then show ?thesis
  proof cases
    case 1
    then show ?thesis using assms(3) pow2_pos [of e] by (simp add: to_double_def)
  next
    case 2
    then have "to_double x \<le> pow2 e" using assms(5) by (rule to_double_below)
    then show ?thesis using assms(3) by linarith
  next
    case 3
    have pos: "0 < x" using 3 pow2_pos [of e] by linarith
    have "x < pow2 (e + 1)" using assms(2,4) up by linarith
    then have u: "ulp x = ?u" using 3 assms(5) by (simp add: ulp_eq)
    have "x < (of_int k - 1 / 2) * ?u" using assms(2) by (simp add: algebra_simps)
    then have "x / ?u < of_int k - 1 / 2" using up by (simp add: pos_divide_less_eq)
    then have "round_half_even (x / ?u) < k" by (rule round_half_even_less)
    then have "(of_int (round_half_even (x / ?u)) :: real) < of_int k" by (simp only: of_int_less_iff)
    then have "of_int (round_half_even (x / ?u)) * ?u < of_int k * ?u"
      using up by (simp only: mult_less_cancel_right_pos)
    then show ?thesis using pos u by (simp add: to_double_def)
  qed
qed

lemma double_below_one:
  assumes "to_double r = r" "0 \<le> r" "r < 1"
  shows "r \<le> 1 - pow2 (- 53)"
proof (cases "r < 1 / 2")
  case True
  then show ?thesis by (simp add: pow2_def)
next
  case False
  then have "ulp r = pow2 (- 1 - 52)" using assms(3) by (intro ulp_eq) (simp_all add: pow2_def)
  then have r: "r = of_int (round_half_even (r / pow2 (- 53))) * pow2 (- 53)"
    using assms(1) False by (simp add: to_double_def)
  define m where "m = round_half_even (r / pow2 (- 53))"
  have "of_int m * pow2 (- 53) < of_int (2 ^ 53) * pow2 (- 53)"
    using r assms(3) by (simp add: m_def pow2_def)
  then have "(of_int m :: real) < of_int (2 ^ 53)"
    using pow2_pos [of "- 53"] by (simp only: mult_less_cancel_right_pos)
  then have "m < 2 ^ 53" by (simp only: of_int_less_iff)
  then have "m \<le> 2 ^ 53 - 1" by simp
  then have "(of_int m :: real) \<le> of_int (2 ^ 53 - 1)" by (simp only: of_int_le_iff)
  then have "of_int m * pow2 (- 53) \<le> of_int (2 ^ 53 - 1) * pow2 (- 53)"
    using pow2_pos [of "- 53"] by (simp only: mult_le_cancel_right_pos)
  then show ?thesis using r by (simp add: m_def pow2_def)
qed

lemma times_3_below:
  assumes "to_double r = r" "0 \<le> r" "r < 1"
  shows "to_double (r * 3) < 3"
proof -
  have r: "r \<le> 1 - pow2 (- 53)" using assms by (rule double_below_one)
  have "to_double (r * 3) < of_int (3 * 2 ^ 51) * pow2 (1 - 52)"
    using r assms(2) by (intro to_double_less) (simp_all add: pow2_def)
  then show ?thesis by (simp add: pow2_def)
qed

lemma times_200_below:
  assumes "to_double r = r" "0 \<le> r" "r < 1"
  shows "to_double (r * 200) < 200"
proof -
  have r: "r \<le> 1 - pow2 (- 53)" using assms by (rule double_below_one)
  have "to_double (r * 200) < of_int (200 * 2 ^ 45) * pow2 (7 - 52)"
    using r assms(2) by (intro to_double_less) (simp_all add: pow2_def)
  then show ?thesis by (simp add: pow2_def)
qed

lemma to_double_eval:
  assumes "pow2 e \<le> x" "x < pow2 (e + 1)" "- 1022 \<le> e"
  shows "to_double x = of_int (round_half_even (x / pow2 (e - 52))) * pow2 (e - 52)"
proof -
  have "0 < x" using assms(1) pow2_pos [of e] by linarith
  then show ?thesis using assms by (simp add: to_double_def ulp_eq)
qed

text \<open>
  The rounding matters: for the double nearest to 0.24 the exact product with 200 is
  below 48, and the rounded product is 48.
\<close>

lemma to_double_rounds_product:
  "to_double (8646911284551352 / 2 ^ 55) = 8646911284551352 / 2 ^ 55"
  "nat \<lfloor>to_double (8646911284551352 / 2 ^ 55 * 200)\<rfloor> = 48"
  "nat \<lfloor>8646911284551352 / 2 ^ 55 * (200 :: real)\<rfloor> = 47"
proof -
  show "to_double (8646911284551352 / 2 ^ 55) = 8646911284551352 / 2 ^ 55"
    by (rule to_double_exact [of "- 3" _ 8646911284551352]) (simp_all add: pow2_def)
  have "to_double (8646911284551352 / 2 ^ 55 * 200) = 48"
    by (subst to_double_eval [of 5]) (simp_all add: pow2_def round_half_even_def)
  then show "nat \<lfloor>to_double (8646911284551352 / 2 ^ 55 * 200)\<rfloor> = 48" by simp
  show "nat \<lfloor>8646911284551352 / 2 ^ 55 * (200 :: real)\<rfloor> = 47" by simp
qed

text \<open>
  The index drawn among the three canned answers is below 3, and the number drawn for
  a token count is below 200, for every draw.
\<close>

lemma floor_times_less: "n = 3 \<or> n = 200 \<Longrightarrow> floor_times r n < n"
proof (transfer)
  fix n :: nat and r :: real
  assume r: "0 \<le> r \<and> r < 1 \<and> to_double r = r" and n: "n = 3 \<or> n = 200"
  from n show "nat \<lfloor>to_double (r * real n)\<rfloor> < n"
  proof
    assume "n = 3"
    moreover have "to_double (r * 3) < 3" using r by (intro times_3_below) simp_all
    then have "\<lfloor>to_double (r * 3)\<rfloor> < 3" by (simp add: floor_less_iff)
    then have "nat \<lfloor>to_double (r * 3)\<rfloor> < 3" by linarith
    ultimately show ?thesis by simp
  next
    assume "n = 200"
    moreover have "to_double (r * 200) < 200" using r by (intro times_200_below) simp_all
    then have "\<lfloor>to_double (r * 200)\<rfloor> < 200" by (simp add: floor_less_iff)
    then have "nat \<lfloor>to_double (r * 200)\<rfloor> < 200" by linarith
    ultimately show ?thesis by simp
  qed
qed

lemma floor_times_examples: "floor_times draw_zero n = 0" "floor_times draw_half 200 = 100"
proof -
  show "floor_times draw_zero n = 0" by transfer (simp add: to_double_def)
  show "floor_times draw_half 200 = 100" by transfer (simp add: to_double_100)
qed

lemma nth_of_three: "i < 3 \<Longrightarrow> [a, b, c] ! i \<in> {a, b, c}"
  by (cases i rule: nat.exhaust; simp add: nth_Cons' less_Suc_eq)

lemma mock_response_shape:
  "generateMockResponse js r1 r2 r3 ms (Some model) ps =
     Inr \<lparr>r_success = True,
          r_content =
            [mock_response_0 js (if ms = [] then [] else m_content (last ms)) model ps,
             mock_response_1 js (if ms = [] then [] else m_content (last ms)) model ps,
             mock_response_2 js (if ms = [] then [] else m_content (last ms)) model ps]
            ! floor_times r1 3,
          r_error = None,
          r_usage =
            Some \<lparr>promptTokens = length (if ms = [] then [] else m_content (last ms)) div 4,
                  completionTokens = floor_times r2 200 + 50,
                  totalTokens = length (if ms = [] then [] else m_content (last ms)) div 4
                                + floor_times r3 200 + 50\<rparr>\<rparr>"
  by (simp add: generateMockResponse_def Let_def numeral_3_eq_3)

lemma mock_response_ok:
  "\<exists>r u. generateMockResponse js r1 r2 r3 ms (Some model) ps = Inr r \<and> r_success r \<and>
     r_content r \<noteq> [] \<and> r_usage r = Some u \<and>
     promptTokens u = length (if ms = [] then [] else m_content (last ms)) div 4 \<and>
     completionTokens u = floor_times r2 200 + 50 \<and>
     totalTokens u = promptTokens u + floor_times r3 200 + 50"
proof -
  let ?p = "if ms = [] then [] else m_content (last ms)"
  let ?rs = "[mock_response_0 js ?p model ps, mock_response_1 js ?p model ps,
              mock_response_2 js ?p model ps]"
  have "floor_times r1 3 < 3" by (simp add: floor_times_less)
  from nth_of_three [OF this, of "mock_response_0 js ?p model ps" "mock_response_1 js ?p model ps"
      "mock_response_2 js ?p model ps"]
  have "?rs ! floor_times r1 3 \<noteq> []"
    using mock_responses_nonempty [of js ?p model ps] by auto
  then show ?thesis unfolding mock_response_shape by simp
qed

lemma cfg_off_api: "\<not> enableRealAPI cfg_off"
  by (simp add: cfg_off_def)

lemma mock_gateway_eq:
  "mock_gateway ms model ps = generateMockResponse js0 draw_zero draw_zero draw_half ms model ps"
  by (simp add: mock_gateway_def generateResponse_def cfg_off_api)

text \<open>
  Claim C1 on the code. With the live-API toggle off, for the single user message
  \<open>Hello\<close> and the model \<open>gpt-3.5-turbo\<close>, when \<open>Math.random()\<close> returns 0, 0 and
  0.5 on its three calls, the response is successful with non-empty content, and its
  usage has 1 prompt token, 50 completion tokens and a total of 151: the total is not
  the sum of the other two, because the total is computed from a random draw of its own.
\<close>

theorem mock_usage_total_differs:
  "\<exists>r u. generateResponse js0 cfg_off no_network draw_zero draw_zero draw_half
            [user_message ''test-1'' ''Hello'' 0] (Some gpt35) defaultParameters = Inr r \<and>
     r_success r \<and> r_content r \<noteq> [] \<and> r_usage r = Some u \<and>
     promptTokens u = 1 \<and> completionTokens u = 50 \<and> totalTokens u = 151 \<and>
     totalTokens u \<noteq> promptTokens u + completionTokens u"
proof -
  have len: "length (m_content (user_message ''test-1'' ''Hello'' 0)) div 4 = 1"
    by (simp add: user_message_def str_def)
  from mock_response_ok [of js0 draw_zero draw_zero draw_half "[user_message ''test-1'' ''Hello'' 0]"
      gpt35 defaultParameters]
  obtain r u where r: "generateMockResponse js0 draw_zero draw_zero draw_half
            [user_message ''test-1'' ''Hello'' 0] (Some gpt35) defaultParameters = Inr r"
    "r_success r" "r_content r \<noteq> []" "r_usage r = Some u"
    "promptTokens u = 1" "completionTokens u = 50" "totalTokens u = 151"
    by (auto simp add: floor_times_examples len)
  then show ?thesis
    by (simp add: generateResponse_def cfg_off_api)
qed

lemma chat2_sel: "messages chat2 = [user_message ''m1'' ''Hi'' 0, assistant_message ''m2'' ''Hello!'' 1000]"
  "selectedModel chat2 = Some gpt35" "parameters chat2 = defaultParameters"
  by (simp_all add: chat2_def state0_def)

lemma example_roles: "m_role (user_message i c t) = User" "m_role (assistant_message i c t) = Assistant"
  by (simp_all add: user_message_def assistant_message_def)

text \<open>
  A conversation of one user and one assistant message: after regeneration with the
  mock gateway it has two messages again, the user's and a new assistant's.
\<close>

theorem regenerateLastMessage_replaces_last_assistant_witness:
  "2 \<le> length (messages chat2) \<and> (\<exists>m\<in>set (messages chat2). m_role m = Assistant) \<and>
   length (messages (regenerateLastMessage mock_gateway fresh0 chat2)) = 2 \<and>
   butlast (messages (regenerateLastMessage mock_gateway fresh0 chat2)) = [user_message ''m1'' ''Hi'' 0] \<and>
   m_role (last (messages (regenerateLastMessage mock_gateway fresh0 chat2))) = Assistant"
proof -
  have two: "2 \<le> length (messages chat2)" by (simp add: chat2_sel)
  have ex: "\<exists>m\<in>set (messages chat2). m_role m = Assistant"
    by (simp add: chat2_sel example_roles)
  from regenerateLastMessage_replaces_last_assistant [OF two ex, of mock_gateway fresh0]
  obtain i where i: "i < length (messages chat2)" "m_role (messages chat2 ! i) = Assistant"
    and res: "case mock_gateway (take i (messages chat2)) (selectedModel chat2) (parameters chat2) of
          Inr response \<Rightarrow>
            if r_success response
            then (\<exists>new. messages (regenerateLastMessage mock_gateway fresh0 chat2)
                          = take i (messages chat2) @ [new] \<and>
                        m_role new = Assistant \<and> m_content new = r_content response)
            else messages (regenerateLastMessage mock_gateway fresh0 chat2) = take i (messages chat2) \<and>
                 error (regenerateLastMessage mock_gateway fresh0 chat2) \<noteq> None
        | Inl m \<Rightarrow> messages (regenerateLastMessage mock_gateway fresh0 chat2) = take i (messages chat2) \<and>
                   error (regenerateLastMessage mock_gateway fresh0 chat2) = Some m"
    by blast
  from i have i1: "i = 1"
    by (cases i) (simp_all add: chat2_sel example_roles)
  from mock_response_ok [of js0 draw_zero draw_zero draw_half "take i (messages chat2)" gpt35 defaultParameters]
  obtain r where r: "mock_gateway (take i (messages chat2)) (selectedModel chat2) (parameters chat2) = Inr r"
    "r_success r"
    by (auto simp add: mock_gateway_eq chat2_sel)
  from res r obtain new where
    "messages (regenerateLastMessage mock_gateway fresh0 chat2) = take i (messages chat2) @ [new]"
    "m_role new = Assistant"
    by auto
  with two ex i1 show ?thesis by (simp add: chat2_sel)
qed

text \<open>
  Claim C2 as stated fails for a list that holds an assistant message but fewer than two
  messages: \<open>regenerateLastMessage\<close> returns at once, and nothing is removed or added.
\<close>

theorem regenerateLastMessage_counterexample:
  "map m_role (messages chat1) = [Assistant] \<and>
   regenerateLastMessage mock_gateway fresh0 chat1 = chat1 \<and>
   messages (regenerateLastMessage mock_gateway fresh0 chat1) = [assistant_message ''m2'' ''Hello!'' 1000]"
  by (simp add: regenerateLastMessage_def chat1_def example_roles)

lemma find_map_same:
  assumes "\<And>x. p (f x) = p x"
  shows "List.find p (map f xs) = map_option f (List.find p xs)"
  using assms by (induction xs) simp_all

lemma find_update_at_index:
  "findIndex p xs = Some i \<Longrightarrow> p y \<Longrightarrow> List.find p (xs[i := y]) = Some y"
proof (induction xs arbitrary: i)
  case Nil
  then show ?case by simp
next
  case (Cons x xs)
  show ?case
  proof (cases "p x")
    case True
    with Cons.prems show ?thesis by simp
  next
    case False
    with Cons.prems obtain k where k: "findIndex p xs = Some k" "i = Suc k"
      by (auto split: option.splits)
    from Cons.IH [OF k(1) Cons.prems(2)] False k(2) show ?thesis by simp
  qed
qed

lemma findIndex_find_None: "findIndex p xs = None \<Longrightarrow> List.find p xs = None"
  by (induction xs) (auto split: option.splits if_splits)

lemma revive_json_id [simp]:
  "c_id (revive_conversation js (json_conversation js c)) = c_id c"
  "c_title (revive_conversation js (json_conversation js c)) = c_title c"
  "c_model (revive_conversation js (json_conversation js c)) = c_model c"
  "c_totalTokens (revive_conversation js (json_conversation js c)) = c_totalTokens c"
  "c_messages (revive_conversation js (json_conversation js c))
     = map (\<lambda>m. revive_message js (json_message js m)) (c_messages c)"
  "c_updatedAt (revive_conversation js (json_conversation js c))
     = T_date (new_Date js (json_tvalue js (c_updatedAt c)))"
  "c_createdAt (revive_conversation js (json_conversation js c))
     = T_date (new_Date js (json_tvalue js (c_createdAt c)))"
  by (simp_all add: revive_conversation_def json_conversation_def)

lemma getConversations_setItem:
  "enableLocalStorage cfg \<Longrightarrow> setItem_conversations js cs ls = Some ls' \<Longrightarrow>
     getConversations js cfg ls' = map (\<lambda>c. revive_conversation js (json_conversation js c)) cs"
  by (auto simp add: setItem_conversations_def getConversations_def split: if_splits)

lemma setItem_ok: "\<not> ls_full ls \<Longrightarrow> \<exists>ls'. setItem_conversations js cs ls = Some ls'"
  by (simp add: setItem_conversations_def)

lemma saveConversation_stored:
  assumes en: "enableLocalStorage cfg" and room: "\<not> ls_full ls"
  shows "\<exists>created.
     getConversation js cfg (c_id c) (saveConversation js cfg now_created now c ls)
       = Some (revive_conversation js
                 (json_conversation js (c\<lparr>c_createdAt := created, c_updatedAt := T_date (Date now)\<rparr>)))"
proof (cases "findIndex (\<lambda>x. c_id x = c_id c) (getConversations js cfg ls)")
  case None
  let ?new = "c\<lparr>c_createdAt := (if truthy (c_createdAt c) then c_createdAt c
                                  else T_date (Date now_created)),
                  c_updatedAt := T_date (Date now)\<rparr>"
  from setItem_ok [OF room, of js "?new # getConversations js cfg ls"]
  obtain ls' where ls': "setItem_conversations js (?new # getConversations js cfg ls) ls = Some ls'"
    by blast
  have "saveConversation js cfg now_created now c ls = ls'"
    using en None ls' by (simp add: saveConversation_def)
  moreover have "getConversation js cfg (c_id c) ls'
      = Some (revive_conversation js (json_conversation js ?new))"
    unfolding getConversation_def getConversations_setItem [OF en ls'] by simp
  ultimately show ?thesis by metis
next
  case (Some i)
  let ?new = "c\<lparr>c_updatedAt := T_date (Date now)\<rparr>"
  let ?cs = "(getConversations js cfg ls)[i := ?new]"
  from setItem_ok [OF room, of js ?cs]
  obtain ls' where ls': "setItem_conversations js ?cs ls = Some ls'"
    by blast
  have "saveConversation js cfg now_created now c ls = ls'"
    using en Some ls' by (simp add: saveConversation_def)
  moreover have "List.find (\<lambda>x. c_id x = c_id c) ?cs = Some ?new"
    by (rule find_update_at_index [OF Some]) simp
  then have "getConversation js cfg (c_id c) ls'
      = Some (revive_conversation js (json_conversation js ?new))"
    unfolding getConversation_def getConversations_setItem [OF en ls']
    by (simp add: find_map_same [where f = "\<lambda>c. revive_conversation js (json_conversation js c)"])
  moreover have "?new = c\<lparr>c_createdAt := c_createdAt c, c_updatedAt := T_date (Date now)\<rparr>"
    by simp
  ultimately show ?thesis by metis
qed






lemma new_conversation_sel:
  "c_id (new_conversation i t) = str i" "c_title (new_conversation i t) = str ''New Conversation''"
  by (simp_all add: new_conversation_def)


lemma storage_on: "enableLocalStorage cfg_on" "\<not> ls_full ls0"
  by (simp_all add: cfg_on_def ls0_def)





section \<open>Properties of persistence and of sending\<close>

text \<open>
  The date functions of the examples at the clock readings the examples use, and at
  some dates of other years, with a leap day and a time before the epoch.
\<close>

lemmas digit_defs =
  two_digits_def three_digits_def four_digits_def six_digits_def digit_def str_def

lemma js0_sel: "toISOString js0 = iso0" "Date_parse js0 = parse0"
  by (simp_all add: js0_def)

lemma civil_from_days_0: "civil_from_days 0 = (1970, 1, 1)"
  unfolding civil_from_days_def by (simp only: Let_def) simp

lemma days_from_civil_1970:
  "days_from_civil 1970 1 1 = 0" "days_from_civil 1970 (Suc 0) (Suc 0) = 0"
  unfolding days_from_civil_def by (simp_all only: Let_def) simp_all

lemma iso0_strings:
  "iso0 0 = str ''1970-01-01T00:00:00.000Z''"
  "iso0 500 = str ''1970-01-01T00:00:00.500Z''"
  "iso0 1000 = str ''1970-01-01T00:00:01.000Z''"
  "iso0 2000 = str ''1970-01-01T00:00:02.000Z''"
  "iso0 3000 = str ''1970-01-01T00:00:03.000Z''"
  unfolding iso0_def Let_def by (simp_all add: civil_from_days_0 digit_defs)

lemma iso0_dates:
  "iso0 1700000000000 = str ''2023-11-14T22:13:20.000Z''"
  "iso0 1709164800000 = str ''2024-02-29T00:00:00.000Z''"
  "iso0 (- 1) = str ''1969-12-31T23:59:59.999Z''"
  "iso0 253402300800000 = str ''+010000-01-01T00:00:00.000Z''"
  unfolding iso0_def civil_from_days_def
  by (simp_all only: Let_def) (simp_all add: digit_defs)

lemma parse0_strings:
  "parse0 (str ''1970-01-01T00:00:00.000Z'') = Date 0"
  "parse0 (str ''1970-01-01T00:00:00.500Z'') = Date 500"
  "parse0 (str ''1970-01-01T00:00:01.000Z'') = Date 1000"
  "parse0 (str ''1970-01-01T00:00:02.000Z'') = Date 2000"
  "parse0 (str ''1970-01-01T00:00:03.000Z'') = Date 3000"
  unfolding parse0_def
  by (simp_all only: Let_def)
     (simp_all add: str_def number_of_def days_from_civil_1970
        iso0_strings [unfolded str_def, simplified])

lemmas parse0_codes = parse0_strings [unfolded str_def, simplified]

lemma iso_parse0:
  "parse0 (iso0 0) = Date 0" "parse0 (iso0 500) = Date 500" "parse0 (iso0 1000) = Date 1000"
  "parse0 (iso0 2000) = Date 2000" "parse0 (iso0 3000) = Date 3000"
  "iso0 0 = str ''1970-01-01T00:00:00.000Z''" "iso0 1000 = str ''1970-01-01T00:00:01.000Z''"
  by (simp_all add: iso0_strings parse0_strings)

lemma start_valid:
  assumes "\<not> (trim (currentPrompt s) = [] \<and> uploadedFiles s = [])"
    and "selectedModel s = Some model"
  shows "sendMessage_start fr s =
     Inr ((let s2 = (addMessage (uploadedFiles s) (user_id fr) (user_time fr)
                        \<lparr>n_role = User, n_content = currentPrompt s,
                         n_model = Some (am_name model), n_tokens = None,
                         n_files = (if uploadedFiles s \<noteq> [] then Some (uploadedFiles s)
                                    else None)\<rparr> s)
                      \<lparr>currentPrompt := [], isLoading := True, isGenerating := True,
                       error := None\<rparr>
           in if no_id (currentConversationId s)
              then snd (createConversation (conv_id fr) (conv_created fr) (conv_updated fr) None s2)
              else s2),
          messages s
          @ [\<lparr>m_id = str ''temp'', m_role = User,
               m_content =
                 (if uploadedFiles s \<noteq> []
                  then generatePromptContext (uploadedFiles s)
                       @ (if currentPrompt s \<noteq> []
                          then nl @ nl @ str ''User Question: '' @ currentPrompt s
                          else [])
                  else currentPrompt s),
               m_timestamp = T_date (Date (temp_time fr)), m_model = None,
               m_tokens = None, m_files = None\<rparr>],
          model)"
  using assms unfolding sendMessage_start_def Let_def
  by (simp only: if_False option.case)

lemma createConversation_messages:
  "messages (snd (createConversation i t1 t2 title s)) = []"
  "uploadedFiles (snd (createConversation i t1 t2 title s)) = []"
  by (simp_all add: createConversation_def Let_def)

lemma addMessage_uploadedFiles:
  "uploadedFiles (addMessage captured i t msg s) = (if captured \<noteq> [] then [] else uploadedFiles s)"
  by (simp add: addMessage_def Let_def)

lemma finish_messages:
  "messages (sendMessage_finish fr captured model outcome s) =
     messages s @
     (case outcome of
        Inr response \<Rightarrow>
          if r_success response
          then [\<lparr>m_id = reply_id fr, m_role = Assistant, m_content = r_content response,
                  m_timestamp = T_date (Date (reply_time fr)), m_model = Some (am_name model),
                  m_tokens = usage_tokens (r_usage response),
                  m_files = (if captured \<noteq> [] then Some captured else None)\<rparr>]
          else []
      | Inl m \<Rightarrow> [])"
  by (simp add: sendMessage_finish_def Let_def addMessage_messages split: sum.splits)

lemma context_nonempty: "files \<noteq> [] \<Longrightarrow> generatePromptContext files \<noteq> []"
  by (simp add: generatePromptContext_def str_def)

text \<open>
  What \<open>sendMessage\<close> sends when attachments are staged and a model is selected: the
  request for the gateway is the message history followed by one message whose content
  is the generated file-context block (never empty), followed by the prompt under the
  heading \<open>User Question\<close> when there is a prompt. The staged list is cleared.
\<close>

lemma sendMessage_request:
  assumes "uploadedFiles s \<noteq> []" and "selectedModel s = Some model"
  shows "\<exists>s' request.
      sendMessage_start fr s = Inr (s', request, model) \<and>
      butlast request = messages s \<and>
      m_content (last request)
        = generatePromptContext (uploadedFiles s)
          @ (if currentPrompt s = [] then [] else nl @ nl @ str ''User Question: '' @ currentPrompt s) \<and>
      generatePromptContext (uploadedFiles s) \<noteq> [] \<and>
      uploadedFiles s' = []"
proof -
  have valid: "\<not> (trim (currentPrompt s) = [] \<and> uploadedFiles s = [])"
    using assms(1) by simp
  note st = start_valid [OF valid assms(2), of fr]
  obtain s' request where sr: "sendMessage_start fr s = Inr (s', request, model)"
    and req: "request = messages s
          @ [\<lparr>m_id = str ''temp'', m_role = User,
               m_content = generatePromptContext (uploadedFiles s)
                       @ (if currentPrompt s \<noteq> []
                          then nl @ nl @ str ''User Question: '' @ currentPrompt s
                          else []),
               m_timestamp = T_date (Date (temp_time fr)), m_model = None,
               m_tokens = None, m_files = None\<rparr>]"
    and up: "uploadedFiles s' = []"
    using assms(1) unfolding st Let_def
    by (simp add: createConversation_messages addMessage_messages addMessage_uploadedFiles)
  have "butlast request = messages s" unfolding req by simp
  moreover have "m_content (last request)
        = generatePromptContext (uploadedFiles s)
          @ (if currentPrompt s = [] then [] else nl @ nl @ str ''User Question: '' @ currentPrompt s)"
    unfolding req by simp
  ultimately show ?thesis
    using sr up context_nonempty [OF assms(1)] by blast
qed

lemma staged1_sel: "uploadedFiles staged1 = [notes_file]" "selectedModel staged1 = Some gpt35"
  "currentPrompt staged1 = str ''Summarize''" "currentConversationId staged1 = Some (str ''c1'')"
  "messages staged1 = []" "parameters staged1 = defaultParameters"
  by (simp_all add: staged1_def state0_def)

lemma staged_new_sel: "uploadedFiles staged_new = [notes_file]"
  "selectedModel staged_new = Some gpt35" "currentPrompt staged_new = str ''Summarize''"
  "currentConversationId staged_new = None" "messages staged_new = []"
  "parameters staged_new = defaultParameters"
  by (simp_all add: staged_new_def state0_def)

lemma getConversations_dates:
  assumes "c \<in> set (getConversations js cfg ls)"
  shows "(\<exists>d. c_createdAt c = T_date d) \<and> (\<exists>d. c_updatedAt c = T_date d) \<and>
         (\<forall>m\<in>set (c_messages c). \<exists>d. m_timestamp m = T_date d)"
  using assms
  by (auto simp add: getConversations_def revive_conversation_def revive_message_def
        split: if_splits item.splits)

lemma json_tvalue_never_date: "json_tvalue js v \<noteq> T_date d"
  by (simp add: json_tvalue_def split: tvalue.splits date.splits)

lemma getTemplates_saveTemplate_fresh:
  assumes "enableLocalStorage cfg" "\<not> ls_full ls" "ls_templates ls = Missing"
  shows "getTemplates cfg (saveTemplate_store js cfg t ls) = [json_template js t]"
  using assms
  by (simp add: saveTemplate_store_def getTemplates_def setItem_templates_def Let_def)

text \<open>
  Claim C5 on the code. A template saved with a \<open>Date\<close> as its \<open>createdAt\<close> comes
  back from \<open>getTemplates\<close> with the ISO string in that field: the read returns what
  \<open>JSON.parse\<close> yields and rebuilds no date. (\<open>getConversations\<close> rebuilds the dates
  of a conversation and of each of its messages: lemma \<open>getConversations_dates\<close>.)
\<close>

theorem getTemplates_returns_strings:
  "getTemplates cfg_on (saveTemplate_store js0 cfg_on template0 ls0)
     = [template0\<lparr>t_createdAt := T_string (str ''1970-01-01T00:00:00.000Z'')\<rparr>] \<and>
   t_createdAt template0 = T_date (Date 0)"
proof -
  have "ls_templates ls0 = Missing" by (simp add: ls0_def)
  from getTemplates_saveTemplate_fresh [OF storage_on this, of js0 template0]
  show ?thesis
    by (simp add: json_template_def json_tvalue_def template0_def js0_sel iso0_strings)
qed

lemma find_id: "List.find (\<lambda>c. c_id c = cid) cs = Some c \<Longrightarrow> c_id c = cid"
  by (auto simp add: find_Some_iff)

lemma export_json:
  "getConversation js cfg cid ls = Some c \<Longrightarrow>
     exportConversation js cfg cid Format_json ls = Inr (Json_text (json_conversation js c))"
  by (simp add: exportConversation_def)

lemma import_exported:
  "importConversations js cfg clock (parse_exported (Json_text j)) ls =
     (True,
      saveConversation js cfg (ic_store_created (clock 0)) (ic_store_updated (clock 0))
        (import_conversation js (clock 0) (parse_conversation j)) ls)"
  by (simp add: importConversations_def parse_exported_def)

lemma import_parse_sel:
  "c_id (import_conversation js k (parse_conversation j)) = (if c_id j = [] then decimal (nat (ic_id k)) else c_id j)"
  "c_messages (import_conversation js k (parse_conversation j)) = c_messages j"
  by (simp_all add: import_conversation_def parse_conversation_def or_else_def)

lemma view_after_round_trip:
  assumes "m_timestamp m = T_date (Date t)" "Date_parse js (toISOString js t) = Date t"
  shows "message_view js (revive_message js (json_message js (json_message js m))) = message_view js m"
  using assms
  by (simp add: message_view_def revive_message_def json_message_def json_tvalue_def new_Date_def)

text \<open>
  Claim C6, as the code has it. With the store enabled and taking writes, for a stored
  conversation whose message timestamps are valid dates that the runtime prints and
  parses back, exporting it to JSON and importing that JSON leaves in the store, under
  the conversation's identifier (or the generated one when the identifier is empty), a
  conversation with the same messages: same roles, same contents, same dates.
\<close>

theorem export_import_round_trip:
  assumes en: "enableLocalStorage cfg" and room: "\<not> ls_full ls"
    and stored: "getConversation js cfg cid ls = Some c"
    and valid: "\<forall>m\<in>set (c_messages c).
                  \<exists>t. m_timestamp m = T_date (Date t) \<and> Date_parse js (toISOString js t) = Date t"
  shows "\<exists>e ls' c'.
      exportConversation js cfg cid Format_json ls = Inr e \<and>
      importConversations js cfg clock (parse_exported e) ls = (True, ls') \<and>
      getConversation js cfg (if cid = [] then decimal (nat (ic_id (clock 0))) else cid) ls' = Some c' \<and>
      map (message_view js) (c_messages c') = map (message_view js) (c_messages c)"
proof -
  let ?j = "json_conversation js c"
  let ?imp = "import_conversation js (clock 0) (parse_conversation ?j)"
  let ?ls' = "saveConversation js cfg (ic_store_created (clock 0)) (ic_store_updated (clock 0)) ?imp ls"
  have cid: "c_id c = cid"
    using stored unfolding getConversation_def by (rule find_id)
  have idj: "c_id ?j = cid" "c_messages ?j = map (json_message js) (c_messages c)"
    using cid by (simp_all add: json_conversation_def)
  have idi: "c_id ?imp = (if cid = [] then decimal (nat (ic_id (clock 0))) else cid)"
    and msi: "c_messages ?imp = map (json_message js) (c_messages c)"
    by (simp_all add: import_parse_sel idj)
  from saveConversation_stored [OF en room, of js ?imp "ic_store_created (clock 0)"
      "ic_store_updated (clock 0)"]
  obtain c' where c': "getConversation js cfg (c_id ?imp) ?ls' = Some c'"
    and ms: "c_messages c' = map (\<lambda>m. revive_message js (json_message js m)) (c_messages ?imp)"
    by auto
  have "map (message_view js) (c_messages c') = map (message_view js) (c_messages c)"
    unfolding ms msi using valid by (auto simp add: view_after_round_trip)
  with c' idi export_json [OF stored] import_exported [of js cfg clock ?j ls]
  show ?thesis by auto
qed

lemmas storage_defs = importConversations_def saveConversation_def getConversations_def
  getConversation_def setItem_conversations_def import_conversation_def json_conversation_def
  json_message_def json_tvalue_def revive_conversation_def revive_message_def new_Date_def
  truthy_def or_else_def Let_def

lemma ls_undated_eq:
  "ls_undated =
     ls0\<lparr>ls_conversations :=
           Json [\<lparr>c_id = str ''c1'', c_title = str ''Notes'', c_messages = [undated_message],
                   c_createdAt = T_string (str ''1970-01-01T00:00:01.000Z''),
                   c_updatedAt = T_string (str ''1970-01-01T00:00:01.000Z''), c_model = None,
                   c_totalTokens = None\<rparr>]\<rparr>"
  by (simp add: ls_undated_def undated_import_def undated_message_def clock0_def ls0_def
        cfg_on_def storage_defs js0_sel iso_parse0 str_def)

lemma ls_dated_eq:
  "ls_dated =
     ls0\<lparr>ls_conversations :=
           Json [\<lparr>c_id = str ''c1'', c_title = str ''Notes'',
                   c_messages =
                     [(user_message ''m1'' ''Hi'' 0)
                        \<lparr>m_timestamp := T_string (str ''1970-01-01T00:00:00.000Z'')\<rparr>,
                      (assistant_message ''m2'' ''Hello!'' 1000)
                        \<lparr>m_timestamp := T_string (str ''1970-01-01T00:00:01.000Z'')\<rparr>],
                   c_createdAt = T_string (str ''1970-01-01T00:00:00.000Z''),
                   c_updatedAt = T_string (str ''1970-01-01T00:00:01.000Z''), c_model = None,
                   c_totalTokens = None\<rparr>]\<rparr>"
  by (simp add: ls_dated_def dated_import_def user_message_def assistant_message_def clock0_def
        ls0_def cfg_on_def storage_defs js0_sel iso_parse0 parse0_codes str_def)

lemma read_undated:
  "getConversation js0 cfg_on (str ''c1'') ls_undated =
     Some \<lparr>c_id = str ''c1'', c_title = str ''Notes'',
            c_messages = [undated_message\<lparr>m_timestamp := T_date Invalid_Date\<rparr>],
            c_createdAt = T_date (Date 1000), c_updatedAt = T_date (Date 1000), c_model = None,
            c_totalTokens = None\<rparr>"
  unfolding ls_undated_eq
  by (simp add: undated_message_def ls0_def cfg_on_def getConversation_def getConversations_def
        revive_conversation_def revive_message_def new_Date_def js0_sel parse0_codes str_def)

lemma read_dated:
  "getConversation js0 cfg_on (str ''c1'') ls_dated =
     Some \<lparr>c_id = str ''c1'', c_title = str ''Notes'',
            c_messages = [user_message ''m1'' ''Hi'' 0, assistant_message ''m2'' ''Hello!'' 1000],
            c_createdAt = T_date (Date 0), c_updatedAt = T_date (Date 1000), c_model = None,
            c_totalTokens = None\<rparr>"
  unfolding ls_dated_eq
  by (simp add: user_message_def assistant_message_def ls0_def cfg_on_def getConversation_def
        getConversations_def revive_conversation_def revive_message_def new_Date_def js0_sel
        parse0_codes str_def)

text \<open>
  Claim C6 as stated fails for a stored conversation with a message that has no
  timestamp (as an imported file may have): read from the store the message has the
  invalid date; the export prints it as \<open>null\<close>, and after the import the message is
  read with the date of the epoch.
\<close>

theorem export_import_round_trip_counterexample:
  "stored_messages js0 cfg_on (str ''c1'') ls_undated = Some [(User, str ''Hi'', Invalid_Date)] \<and>
   Option.bind (round_trip js0 cfg_on clock0 (str ''c1'') ls_undated)
     (stored_messages js0 cfg_on (str ''c1''))
     = Some [(User, str ''Hi'', Date 0)]"
proof -
  have a: "stored_messages js0 cfg_on (str ''c1'') ls_undated = Some [(User, str ''Hi'', Invalid_Date)]"
    by (simp add: stored_messages_def read_undated message_view_def undated_message_def new_Date_def)
  have b: "round_trip js0 cfg_on clock0 (str ''c1'') ls_undated =
      Some (ls0\<lparr>ls_conversations :=
           Json [\<lparr>c_id = str ''c1'', c_title = str ''Notes'',
                   c_messages = [undated_message\<lparr>m_timestamp := T_null\<rparr>],
                   c_createdAt = T_string (str ''1970-01-01T00:00:01.000Z''),
                   c_updatedAt = T_string (str ''1970-01-01T00:00:01.000Z''), c_model = None,
                   c_totalTokens = None\<rparr>]\<rparr>)"
    unfolding round_trip_def export_json [OF read_undated] sum.case import_exported
    unfolding ls_undated_eq
    by (simp add: undated_message_def clock0_def ls0_def cfg_on_def parse_conversation_def
        saveConversation_def getConversations_def setItem_conversations_def
        import_conversation_def json_conversation_def json_message_def json_tvalue_def
        revive_conversation_def revive_message_def new_Date_def truthy_def or_else_def Let_def
        js0_sel iso_parse0 parse0_codes str_def)
  have c: "stored_messages js0 cfg_on (str ''c1'')
      (ls0\<lparr>ls_conversations :=
           Json [\<lparr>c_id = str ''c1'', c_title = str ''Notes'',
                   c_messages = [undated_message\<lparr>m_timestamp := T_null\<rparr>],
                   c_createdAt = T_string (str ''1970-01-01T00:00:01.000Z''),
                   c_updatedAt = T_string (str ''1970-01-01T00:00:01.000Z''), c_model = None,
                   c_totalTokens = None\<rparr>]\<rparr>) = Some [(User, str ''Hi'', Date 0)]"
    by (simp add: stored_messages_def message_view_def undated_message_def ls0_def cfg_on_def
        getConversation_def getConversations_def revive_conversation_def revive_message_def
        new_Date_def js0_sel parse0_codes str_def)
  show ?thesis unfolding b using a c by simp
qed

lemma saveConversation_full: "ls_full (saveConversation js cfg nc n c ls) = ls_full ls"
  by (simp add: saveConversation_def setItem_conversations_def Let_def split: option.splits)

text \<open>A stored conversation of two dated messages comes back with the same messages.\<close>

theorem export_import_round_trip_witness:
  "stored_messages js0 cfg_on (str ''c1'') ls_dated
     = Some [(User, str ''Hi'', Date 0), (Assistant, str ''Hello!'', Date 1000)] \<and>
   Option.bind (round_trip js0 cfg_on clock0 (str ''c1'') ls_dated)
     (stored_messages js0 cfg_on (str ''c1''))
     = Some [(User, str ''Hi'', Date 0), (Assistant, str ''Hello!'', Date 1000)]"
proof -
  let ?c = "\<lparr>c_id = str ''c1'', c_title = str ''Notes'',
            c_messages = [user_message ''m1'' ''Hi'' 0, assistant_message ''m2'' ''Hello!'' 1000],
            c_createdAt = T_date (Date 0), c_updatedAt = T_date (Date 1000), c_model = None,
            c_totalTokens = None\<rparr>"
  have views: "map (message_view js0) (c_messages ?c)
      = [(User, str ''Hi'', Date 0), (Assistant, str ''Hello!'', Date 1000)]"
    by (simp add: message_view_def user_message_def assistant_message_def new_Date_def)
  have a: "stored_messages js0 cfg_on (str ''c1'') ls_dated
     = Some [(User, str ''Hi'', Date 0), (Assistant, str ''Hello!'', Date 1000)]"
    unfolding stored_messages_def read_dated using views by simp
  have room: "\<not> ls_full ls_dated"
    by (simp add: ls_dated_eq ls0_def)
  have valid: "\<forall>m\<in>set (c_messages ?c).
      \<exists>t. m_timestamp m = T_date (Date t) \<and> Date_parse js0 (toISOString js0 t) = Date t"
    by (simp add: user_message_def assistant_message_def js0_sel iso_parse0 parse0_strings)
  have ne: "str ''c1'' \<noteq> []" by (simp add: str_def)
  from export_import_round_trip [OF storage_on(1) room read_dated valid, of clock0]
  obtain e ls' c' where e: "exportConversation js0 cfg_on (str ''c1'') Format_json ls_dated = Inr e"
    and i: "importConversations js0 cfg_on clock0 (parse_exported e) ls_dated = (True, ls')"
    and g: "getConversation js0 cfg_on (str ''c1'') ls' = Some c'"
    and m: "map (message_view js0) (c_messages c') = map (message_view js0) (c_messages ?c)"
    using ne by auto
  have "round_trip js0 cfg_on clock0 (str ''c1'') ls_dated = Some ls'"
    by (simp add: round_trip_def e i)
  moreover have "stored_messages js0 cfg_on (str ''c1'') ls'
      = Some [(User, str ''Hi'', Date 0), (Assistant, str ''Hello!'', Date 1000)]"
    unfolding stored_messages_def g using m views by simp
  ultimately show ?thesis using a by simp
qed

lemma rename_conversations:
  "conversations (fst (renameConversation js cfg cid title now na nc ns s ls)) =
     map (\<lambda>c. if c_id c = cid then c\<lparr>c_title := title, c_updatedAt := T_date (Date now)\<rparr> else c)
       (conversations s)"
  by (simp add: renameConversation_def)

lemma saveCurrent_conversations:
  "\<exists>u. c_updatedAt u = T_date (Date now) \<and>
     (conversations (fst (saveCurrentConversation js cfg now nc ns s ls)) = conversations s \<or>
      conversations (fst (saveCurrentConversation js cfg now nc ns s ls)) =
        map (\<lambda>c. if Some (c_id c) = currentConversationId s then u else c) (conversations s))"
proof (cases "no_id (currentConversationId s) \<or> messages s = []")
  case True
  then have "conversations (fst (saveCurrentConversation js cfg now nc ns s ls)) = conversations s"
    by (simp add: saveCurrentConversation_def)
  then show ?thesis by (metis Conversation.select_convs(5))
next
  case False
  show ?thesis
  proof (cases "List.find (\<lambda>c. Some (c_id c) = currentConversationId s) (conversations s)")
    case None
    with False have "conversations (fst (saveCurrentConversation js cfg now nc ns s ls)) = conversations s"
      by (simp add: saveCurrentConversation_def)
    then show ?thesis by (metis Conversation.select_convs(5))
  next
    case (Some conversation)
    let ?U = "conversation
        \<lparr>c_messages := messages s, c_updatedAt := T_date (Date now),
         c_model := map_option am_name (selectedModel s),
         c_totalTokens :=
           Some (sum_list (map (\<lambda>msg. case m_tokens msg of None \<Rightarrow> 0 | Some t \<Rightarrow> tk_total t)
                            (messages s)))\<rparr>"
    let ?U' = "if autoTitle (settings s) \<and> c_title conversation = str ''New Conversation''
                  \<and> length (messages s) \<ge> 2
               then (case List.find (\<lambda>m. m_role m = User) (messages s) of
                       None \<Rightarrow> ?U
                     | Some firstUserMessage \<Rightarrow>
                         ?U\<lparr>c_title :=
                              slice0 50 (m_content firstUserMessage)
                              @ (if length (m_content firstUserMessage) > 50 then str ''...''
                                 else [])\<rparr>)
               else ?U"
    have eq: "conversations (fst (saveCurrentConversation js cfg now nc ns s ls)) =
        map (\<lambda>c. if Some (c_id c) = currentConversationId s then ?U' else c) (conversations s)"
      using False Some unfolding saveCurrentConversation_def Let_def
      by (simp cong: if_cong)
    have "c_updatedAt ?U' = T_date (Date now)"
      by (simp split: option.splits)
    with eq show ?thesis by blast
  qed
qed

lemma step_updatedAt:
  assumes "i < length (conversations s)"
  shows "length (conversations (fst (apply_operation js cfg operation (s, ls)))) = length (conversations s) \<and>
     (c_updatedAt (conversations (fst (apply_operation js cfg operation (s, ls))) ! i)
        = c_updatedAt (conversations s ! i) \<or>
      c_updatedAt (conversations (fst (apply_operation js cfg operation (s, ls))) ! i)
        = T_date (Date (op_clock operation)))"
proof (cases operation)
  case (Save_current now nc ns)
  from saveCurrent_conversations [of now js cfg nc ns s ls] assms
  show ?thesis unfolding Save_current by auto
next
  case (Rename cid title now na nc ns)
  show ?thesis unfolding Rename using assms by (simp add: rename_conversations)
qed

lemma run_append: "run js cfg (a @ b) w = run js cfg b (run js cfg a w)"
  by (induction a arbitrary: w) simp_all

lemma step_length:
  "length (conversations (fst (apply_operation js cfg operation (s, ls)))) = length (conversations s)"
proof (cases operation)
  case (Save_current now nc ns)
  from saveCurrent_conversations [of now js cfg nc ns s ls]
  show ?thesis unfolding Save_current by auto
next
  case (Rename cid title now na nc ns)
  show ?thesis unfolding Rename by (simp add: rename_conversations)
qed

lemma run_length:
  "length (conversations (fst (run js cfg operations (s, ls)))) = length (conversations s)"
proof (induction operations arbitrary: s ls)
  case Nil
  show ?case by simp
next
  case (Cons operation operations)
  obtain s' ls' where w: "apply_operation js cfg operation (s, ls) = (s', ls')"
    by (cases "apply_operation js cfg operation (s, ls)")
  from step_length [of js cfg operation s ls] w Cons.IH [of s' ls']
  show ?case by simp
qed

lemma run_updatedAt_reading:
  assumes "sorted (t0 # map op_clock operations)"
    and "i < length (conversations s)"
    and "c_updatedAt (conversations s ! i) = T_date (Date t0)"
  shows "\<exists>t1. t0 \<le> t1 \<and> (t1 = t0 \<or> t1 \<in> set (map op_clock operations)) \<and>
     c_updatedAt (conversations (fst (run js cfg operations (s, ls))) ! i) = T_date (Date t1)"
  using assms
proof (induction operations arbitrary: s ls t0)
  case Nil
  then show ?case by auto
next
  case (Cons operation operations)
  obtain s' ls' where w: "apply_operation js cfg operation (s, ls) = (s', ls')"
    by (cases "apply_operation js cfg operation (s, ls)")
  from step_updatedAt [OF Cons.prems(2), of js cfg operation ls] w
  have len: "i < length (conversations s')"
    and upd: "c_updatedAt (conversations s' ! i) = c_updatedAt (conversations s ! i) \<or>
              c_updatedAt (conversations s' ! i) = T_date (Date (op_clock operation))"
    using Cons.prems(2) by auto
  from Cons.prems(1) have le: "t0 \<le> op_clock operation"
    and s0: "sorted (t0 # map op_clock operations)"
    and s1: "sorted (op_clock operation # map op_clock operations)"
    by auto
  from upd show ?case
  proof
    assume "c_updatedAt (conversations s' ! i) = c_updatedAt (conversations s ! i)"
    with Cons.prems(3) have "c_updatedAt (conversations s' ! i) = T_date (Date t0)" by simp
    from Cons.IH [OF s0 len this, of ls'] show ?thesis by (auto simp add: w)
  next
    assume "c_updatedAt (conversations s' ! i) = T_date (Date (op_clock operation))"
    from Cons.IH [OF s1 len this, of ls'] le show ?thesis by (auto simp add: w)
  qed
qed

lemma run_monotone:
  assumes so: "sorted (t0 # map op_clock (earlier @ later))"
    and i: "i < length (conversations s)"
    and u: "c_updatedAt (conversations s ! i) = T_date (Date t0)"
  shows "\<exists>t1 t2. t0 \<le> t1 \<and> t1 \<le> t2 \<and>
     c_updatedAt (conversations (fst (run js cfg earlier (s, ls))) ! i) = T_date (Date t1) \<and>
     c_updatedAt (conversations (fst (run js cfg (earlier @ later) (s, ls))) ! i) = T_date (Date t2)"
proof -
  from so have s1: "sorted (t0 # map op_clock earlier)"
    and cross: "\<forall>x\<in>set (map op_clock earlier). \<forall>y\<in>set (map op_clock later). x \<le> y"
    and low: "\<forall>y\<in>set (map op_clock later). t0 \<le> y"
    and s2: "sorted (map op_clock later)"
    by (auto simp add: sorted_append)
  from run_updatedAt_reading [OF s1 i u, of js cfg ls]
  obtain t1 where t1: "t0 \<le> t1" "t1 = t0 \<or> t1 \<in> set (map op_clock earlier)"
    and u1: "c_updatedAt (conversations (fst (run js cfg earlier (s, ls))) ! i) = T_date (Date t1)"
    by blast
  obtain s' ls' where w: "run js cfg earlier (s, ls) = (s', ls')"
    by (cases "run js cfg earlier (s, ls)")
  have i': "i < length (conversations s')"
    using run_length [of js cfg earlier s ls] i w by simp
  have so': "sorted (t1 # map op_clock later)"
    using t1(2) cross low s2 by auto
  from run_updatedAt_reading [OF so' i', of js cfg ls'] u1 w
  obtain t2 where "t1 \<le> t2"
    "c_updatedAt (conversations (fst (run js cfg later (s', ls'))) ! i) = T_date (Date t2)"
    by auto
  with t1(1) u1 show ?thesis
    by (auto simp add: run_append w)
qed

lemma saveConversation_updatedAt:
  assumes "enableLocalStorage cfg" "\<not> ls_full ls" "Date_parse js (toISOString js now) = Date now"
  shows "\<exists>c'. getConversation js cfg (c_id c) (saveConversation js cfg nc now c ls) = Some c' \<and>
              c_updatedAt c' = T_date (Date now)"
proof -
  from saveConversation_stored [OF assms(1,2), of js c nc now]
  show ?thesis using assms(3) by (auto simp add: json_tvalue_def new_Date_def)
qed

text \<open>
  Claim C7, as the code has it. Every save, rename and auto-save writes the clock
  reading of the operation into \<open>updatedAt\<close>, without comparing it with the value it
  replaces. So along a sequence of saves and renames whose clock readings are in
  non-decreasing order and not earlier than a conversation's \<open>updatedAt\<close>, that
  conversation's \<open>updatedAt\<close> in memory never moves back: its value after any part of
  the sequence is not earlier than at the start, and its value at the end is not earlier
  than that. And \<open>saveConversation\<close> stores the clock reading of the call as the
  \<open>updatedAt\<close> read back from the store.
\<close>

theorem updatedAt_non_decreasing_with_clock:
  assumes "sorted (t0 # map op_clock (earlier @ later))"
  shows "(\<forall>i<length (conversations s).
            c_updatedAt (conversations s ! i) = T_date (Date t0) \<longrightarrow>
            (\<exists>t1 t2. t0 \<le> t1 \<and> t1 \<le> t2 \<and>
               c_updatedAt (conversations (fst (run js cfg earlier (s, ls))) ! i)
                 = T_date (Date t1) \<and>
               c_updatedAt (conversations (fst (run js cfg (earlier @ later) (s, ls))) ! i)
                 = T_date (Date t2))) \<and>
         (enableLocalStorage cfg \<and> \<not> ls_full ls \<and> Date_parse js (toISOString js now) = Date now
            \<longrightarrow> (\<exists>c'. getConversation js cfg (c_id c) (saveConversation js cfg nc now c ls) = Some c'
                      \<and> c_updatedAt c' = T_date (Date now)))"
  using run_monotone [OF assms] saveConversation_updatedAt [of cfg ls js now c nc]
  by blast

lemma renamed_active_sel: "conversations renamed_active = [new_conversation ''c1'' 1000]"
  "currentConversationId renamed_active = Some (str ''c1'')"
  "messages renamed_active = [long_question, assistant_message ''m2'' ''Hello!'' 1000]"
  by (simp_all add: renamed_active_def untitled2_def state0_def)

lemma run_rename_2000:
  "map c_updatedAt (conversations (fst (run js0 cfg_on rename_2000 (renamed_active, ls0))))
     = [T_date (Date 2000)]"
  by (simp add: rename_2000_def rename_conversations renamed_active_sel new_conversation_def)

text \<open>
  A conversation updated at 1000 is renamed at clock reading 2000 and then saved at
  3000.
\<close>

theorem updatedAt_non_decreasing_with_clock_witness:
  "sorted (1000 # map op_clock (rename_2000 @ save_3000)) \<and>
   c_updatedAt (conversations renamed_active ! 0) = T_date (Date 1000) \<and>
   (\<exists>t1 t2. 1000 \<le> t1 \<and> t1 \<le> t2 \<and>
      c_updatedAt (conversations (fst (run js0 cfg_on rename_2000 (renamed_active, ls0))) ! 0)
        = T_date (Date t1) \<and>
      c_updatedAt
        (conversations (fst (run js0 cfg_on (rename_2000 @ save_3000) (renamed_active, ls0))) ! 0)
        = T_date (Date t2)) \<and>
   (\<exists>c'. getConversation js0 cfg_on (str ''c1'')
            (saveConversation js0 cfg_on 1000 1000 (new_conversation ''c1'' 0) ls0) = Some c'
         \<and> c_updatedAt c' = T_date (Date 1000))"
proof -
  have so: "sorted (1000 # map op_clock (rename_2000 @ save_3000))"
    by (simp add: rename_2000_def save_3000_def)
  have u: "c_updatedAt (conversations renamed_active ! 0) = T_date (Date 1000)"
    by (simp add: renamed_active_sel new_conversation_def)
  have l: "0 < length (conversations renamed_active)"
    by (simp add: renamed_active_sel)
  have p: "Date_parse js0 (toISOString js0 1000) = Date 1000"
    by (simp add: js0_sel iso_parse0 parse0_strings)
  from updatedAt_non_decreasing_with_clock [OF so, of renamed_active js0 cfg_on ls0 1000
      "new_conversation ''c1'' 0" 1000]
  show ?thesis using so u l p storage_on by (simp add: new_conversation_sel)
qed

text \<open>
  Claim C7 as stated fails when the clock reads earlier than the stored value: a rename
  at clock reading 500 takes \<open>updatedAt\<close> from 1000 to 500 in memory, and a save at
  clock reading 0 takes the stored \<open>updatedAt\<close> from 1000 to 0.
\<close>

theorem updatedAt_counterexample:
  "map c_updatedAt (conversations renamed_active) = [T_date (Date 1000)] \<and>
   map c_updatedAt
     (conversations
        (fst (renameConversation js0 cfg_on (str ''c1'') (str ''Renamed'') 500 500 500 500
                renamed_active ls0)))
     = [T_date (Date 500)] \<and>
   map_option c_updatedAt (getConversation js0 cfg_on (str ''c1'') ls_dated)
     = Some (T_date (Date 1000)) \<and>
   map_option c_updatedAt
     (getConversation js0 cfg_on (str ''c1'')
        (saveConversation js0 cfg_on 0 0 (new_conversation ''c1'' 0) ls_dated))
     = Some (T_date (Date 0))"
proof -
  have room: "\<not> ls_full ls_dated" by (simp add: ls_dated_eq ls0_def)
  have p: "Date_parse js0 (toISOString js0 0) = Date 0" by (simp add: js0_sel iso_parse0 parse0_strings)
  from saveConversation_updatedAt [OF storage_on(1) room p, of "new_conversation ''c1'' 0" 0]
  have "map_option c_updatedAt
     (getConversation js0 cfg_on (str ''c1'')
        (saveConversation js0 cfg_on 0 0 (new_conversation ''c1'' 0) ls_dated))
     = Some (T_date (Date 0))"
    by (auto simp add: new_conversation_sel)
  then show ?thesis
    by (simp add: rename_conversations renamed_active_sel new_conversation_def read_dated)
qed

lemma sendMessage_messages:
  assumes "\<not> (trim (currentPrompt s) = [] \<and> uploadedFiles s = [])"
    and "selectedModel s = Some model"
  shows "\<exists>request.
     messages (sendMessage gw fr s) =
       (if no_id (currentConversationId s) then []
        else messages s
             @ [\<lparr>m_id = user_id fr, m_role = User, m_content = currentPrompt s,
                  m_timestamp = T_date (Date (user_time fr)), m_model = Some (am_name model),
                  m_tokens = None,
                  m_files = (if uploadedFiles s \<noteq> [] then Some (uploadedFiles s) else None)\<rparr>])
       @ (case gw request (Some model) (parameters s) of
            Inr response \<Rightarrow>
              if r_success response
              then [\<lparr>m_id = reply_id fr, m_role = Assistant, m_content = r_content response,
                      m_timestamp = T_date (Date (reply_time fr)),
                      m_model = Some (am_name model),
                      m_tokens = usage_tokens (r_usage response),
                      m_files = (if uploadedFiles s \<noteq> [] then Some (uploadedFiles s) else None)\<rparr>]
              else []
          | Inl m \<Rightarrow> [])"
proof -
  let ?request = "messages s
          @ [\<lparr>m_id = str ''temp'', m_role = User,
               m_content =
                 (if uploadedFiles s \<noteq> []
                  then generatePromptContext (uploadedFiles s)
                       @ (if currentPrompt s \<noteq> []
                          then nl @ nl @ str ''User Question: '' @ currentPrompt s
                          else [])
                  else currentPrompt s),
               m_timestamp = T_date (Date (temp_time fr)), m_model = None,
               m_tokens = None, m_files = None\<rparr>]"
  have "messages (sendMessage gw fr s) =
       (if no_id (currentConversationId s) then []
        else messages s
             @ [\<lparr>m_id = user_id fr, m_role = User, m_content = currentPrompt s,
                  m_timestamp = T_date (Date (user_time fr)), m_model = Some (am_name model),
                  m_tokens = None,
                  m_files = (if uploadedFiles s \<noteq> [] then Some (uploadedFiles s) else None)\<rparr>])
       @ (case gw ?request (Some model) (parameters s) of
            Inr response \<Rightarrow>
              if r_success response
              then [\<lparr>m_id = reply_id fr, m_role = Assistant, m_content = r_content response,
                      m_timestamp = T_date (Date (reply_time fr)),
                      m_model = Some (am_name model),
                      m_tokens = usage_tokens (r_usage response),
                      m_files = (if uploadedFiles s \<noteq> [] then Some (uploadedFiles s) else None)\<rparr>]
              else []
          | Inl m \<Rightarrow> [])"
    unfolding sendMessage_def start_valid [OF assms, of fr] Let_def
    by (simp add: finish_messages createConversation_messages addMessage_messages)
  then show ?thesis by (rule exI)
qed

lemma hello_sel:
  "currentPrompt hello_new = str ''Hello''" "uploadedFiles hello_new = []"
  "selectedModel hello_new = Some gpt35" "currentConversationId hello_new = None"
  "messages hello_new = []" "parameters hello_new = defaultParameters"
  "currentPrompt hello_active = str ''Hello''" "uploadedFiles hello_active = []"
  "selectedModel hello_active = Some gpt35" "currentConversationId hello_active = Some (str ''c1'')"
  "messages hello_active = []" "parameters hello_active = defaultParameters"
  by (simp_all add: hello_new_def hello_active_def state0_def)

lemma trim_Hello: "trim (str ''Hello'') \<noteq> []"
  by (simp add: trim_def str_def isWhiteSpace_def)

lemma mock_gateway_succeeds:
  "\<exists>r. mock_gateway request (Some model) ps = Inr r \<and> r_success r"
  using mock_response_ok [of js0 draw_zero draw_zero draw_half request model ps]
  by (auto simp add: mock_gateway_eq)

text \<open>
  The scenario of the spec: \<open>Hello\<close> is sent with the mock gateway. When no
  conversation is active, \<open>createConversation\<close> empties the message list after the user
  message was appended, and the list ends with the assistant's message alone; in an
  active conversation it ends with the user's message and the assistant's.
\<close>

lemma first_message_lost:
  "map m_role (messages (sendMessage mock_gateway fresh0 hello_new)) = [Assistant]"
proof -
  have v: "\<not> (trim (currentPrompt hello_new) = [] \<and> uploadedFiles hello_new = [])"
    by (simp add: hello_sel trim_Hello)
  from sendMessage_messages [OF v hello_sel(3), of mock_gateway fresh0]
  obtain request where m: "messages (sendMessage mock_gateway fresh0 hello_new) =
       (case mock_gateway request (Some gpt35) defaultParameters of
            Inr response \<Rightarrow>
              if r_success response
              then [\<lparr>m_id = reply_id fresh0, m_role = Assistant, m_content = r_content response,
                      m_timestamp = T_date (Date (reply_time fresh0)),
                      m_model = Some (am_name gpt35),
                      m_tokens = usage_tokens (r_usage response),
                      m_files = None\<rparr>]
              else []
          | Inl m \<Rightarrow> [])"
    by (auto simp add: hello_sel no_id_def)
  from mock_gateway_succeeds [of request gpt35 defaultParameters]
  show ?thesis unfolding m by auto
qed

lemma later_message_kept:
  "map (\<lambda>m. (m_role m, m_content m)) (butlast (messages (sendMessage mock_gateway fresh0 hello_active)))
     = [(User, str ''Hello'')] \<and>
   map m_role (messages (sendMessage mock_gateway fresh0 hello_active)) = [User, Assistant]"
proof -
  have v: "\<not> (trim (currentPrompt hello_active) = [] \<and> uploadedFiles hello_active = [])"
    by (simp add: hello_sel trim_Hello)
  have n: "\<not> no_id (currentConversationId hello_active)"
    by (simp add: hello_sel no_id_def str_def)
  from sendMessage_messages [OF v hello_sel(9), of mock_gateway fresh0]
  obtain request where m: "messages (sendMessage mock_gateway fresh0 hello_active) =
       [\<lparr>m_id = user_id fresh0, m_role = User, m_content = str ''Hello'',
                  m_timestamp = T_date (Date (user_time fresh0)), m_model = Some (am_name gpt35),
                  m_tokens = None, m_files = None\<rparr>]
       @ (case mock_gateway request (Some gpt35) defaultParameters of
            Inr response \<Rightarrow>
              if r_success response
              then [\<lparr>m_id = reply_id fresh0, m_role = Assistant, m_content = r_content response,
                      m_timestamp = T_date (Date (reply_time fresh0)),
                      m_model = Some (am_name gpt35),
                      m_tokens = usage_tokens (r_usage response),
                      m_files = None\<rparr>]
              else []
          | Inl m \<Rightarrow> [])"
    using n by (auto simp add: hello_sel)
  from mock_gateway_succeeds [of request gpt35 defaultParameters]
  show ?thesis unfolding m by auto
qed

text \<open>
  With attachments staged in an active conversation, \<open>sendMessage\<close> leaves the list
  with one user message more, which holds the raw prompt as its content and the staged
  files, followed by the assistant's message when the gateway succeeds.
\<close>

lemma sendMessage_active_conversation:
  assumes "uploadedFiles s \<noteq> []" and "selectedModel s = Some model"
    and "\<not> no_id (currentConversationId s)"
  shows "\<exists>u rest.
      messages (sendMessage gw fr s) = messages s @ u # rest \<and>
      m_role u = User \<and> m_content u = currentPrompt s \<and> m_files u = Some (uploadedFiles s) \<and>
      list_all (\<lambda>m. m_role m = Assistant) rest \<and> length rest \<le> 1"
proof -
  have valid: "\<not> (trim (currentPrompt s) = [] \<and> uploadedFiles s = [])"
    using assms(1) by simp
  from sendMessage_messages [OF valid assms(2), of gw fr]
  obtain request where m: "messages (sendMessage gw fr s) =
       messages s
       @ \<lparr>m_id = user_id fr, m_role = User, m_content = currentPrompt s,
            m_timestamp = T_date (Date (user_time fr)), m_model = Some (am_name model),
            m_tokens = None, m_files = Some (uploadedFiles s)\<rparr>
       # (case gw request (Some model) (parameters s) of
            Inr response \<Rightarrow>
              if r_success response
              then [\<lparr>m_id = reply_id fr, m_role = Assistant, m_content = r_content response,
                      m_timestamp = T_date (Date (reply_time fr)),
                      m_model = Some (am_name model),
                      m_tokens = usage_tokens (r_usage response),
                      m_files = Some (uploadedFiles s)\<rparr>]
              else []
          | Inl m \<Rightarrow> [])"
    using assms(1,3) by auto
  show ?thesis
    unfolding m by (intro exI conjI, rule refl) (simp_all split: sum.splits)
qed

text \<open>
  With no conversation active, the list that \<open>sendMessage\<close> leaves has no user message:
  \<open>createConversation\<close> empties the list after the user message was appended. The
  assistant's message, appended through the \<open>addMessage\<close> that \<open>sendMessage\<close> captured
  while the files were staged, carries the staged files.
\<close>

lemma sendMessage_new_session:
  assumes "uploadedFiles s \<noteq> []" and "selectedModel s = Some model"
    and "no_id (currentConversationId s)"
  shows "\<exists>request.
      messages (sendMessage gw fr s) =
        (case gw request (Some model) (parameters s) of
           Inr response \<Rightarrow>
             if r_success response
             then [\<lparr>m_id = reply_id fr, m_role = Assistant, m_content = r_content response,
                     m_timestamp = T_date (Date (reply_time fr)),
                     m_model = Some (am_name model),
                     m_tokens = usage_tokens (r_usage response),
                     m_files = Some (uploadedFiles s)\<rparr>]
             else []
         | Inl m \<Rightarrow> [])"
proof -
  have valid: "\<not> (trim (currentPrompt s) = [] \<and> uploadedFiles s = [])"
    using assms(1) by simp
  from sendMessage_messages [OF valid assms(2), of gw fr]
  show ?thesis using assms(1,3) by auto
qed

text \<open>
  Claim C10 on the code. One text file is staged and the prompt is \<open>Summarize\<close>, in a
  new session, where no conversation is active and the message list is empty; the mock
  gateway answers. The claim has \<open>sendMessage\<close> store a user message with the raw prompt
  as its content and the staged file in its files field. The list that \<open>sendMessage\<close>
  leaves holds one message, the assistant's, and the staged file is in the files field
  of that message: no user message is stored.
\<close>

theorem sendMessage_new_session_stores_no_user_message:
  "currentConversationId staged_new = None \<and> messages staged_new = [] \<and>
   currentPrompt staged_new = str ''Summarize'' \<and> uploadedFiles staged_new = [notes_file] \<and>
   map (\<lambda>m. (m_role m, m_files m)) (messages (sendMessage mock_gateway fresh0 staged_new))
     = [(Assistant, Some [notes_file])]"
proof -
  have f: "uploadedFiles staged_new \<noteq> []" by (simp add: staged_new_sel)
  have n: "no_id (currentConversationId staged_new)" by (simp add: staged_new_sel no_id_def)
  from sendMessage_new_session [OF f staged_new_sel(2) n, of mock_gateway fresh0]
  obtain request where m: "messages (sendMessage mock_gateway fresh0 staged_new) =
        (case mock_gateway request (Some gpt35) (parameters staged_new) of
           Inr response \<Rightarrow>
             if r_success response
             then [\<lparr>m_id = reply_id fresh0, m_role = Assistant, m_content = r_content response,
                     m_timestamp = T_date (Date (reply_time fresh0)),
                     m_model = Some (am_name gpt35),
                     m_tokens = usage_tokens (r_usage response),
                     m_files = Some (uploadedFiles staged_new)\<rparr>]
             else []
         | Inl m \<Rightarrow> [])"
    by blast
  from mock_gateway_succeeds [of request gpt35 "parameters staged_new"]
  have "map (\<lambda>m. (m_role m, m_files m)) (messages (sendMessage mock_gateway fresh0 staged_new))
     = [(Assistant, Some [notes_file])]"
    unfolding m by (auto simp add: staged_new_sel)
  then show ?thesis by (simp add: staged_new_sel)
qed

text \<open>
  In the active conversation of \<open>staged1\<close> the same file and prompt are stored as the
  claim has it: the user message with the raw prompt and the file, then the assistant's.
\<close>

lemma sendMessage_active_example:
  "map (\<lambda>m. (m_role m, m_files m)) (messages (sendMessage mock_gateway fresh0 staged1))
     = [(User, Some [notes_file]), (Assistant, Some [notes_file])] \<and>
   m_content (hd (messages (sendMessage mock_gateway fresh0 staged1))) = str ''Summarize''"
proof -
  have valid: "\<not> (trim (currentPrompt staged1) = [] \<and> uploadedFiles staged1 = [])"
    by (simp add: staged1_sel)
  have n: "\<not> no_id (currentConversationId staged1)"
    by (simp add: staged1_sel no_id_def str_def)
  have f: "uploadedFiles staged1 \<noteq> []" by (simp add: staged1_sel)
  from sendMessage_messages [OF valid staged1_sel(2), of mock_gateway fresh0]
  obtain request where m: "messages (sendMessage mock_gateway fresh0 staged1) =
       messages staged1
       @ [\<lparr>m_id = user_id fresh0, m_role = User, m_content = currentPrompt staged1,
            m_timestamp = T_date (Date (user_time fresh0)), m_model = Some (am_name gpt35),
            m_tokens = None, m_files = Some (uploadedFiles staged1)\<rparr>]
       @ (case mock_gateway request (Some gpt35) (parameters staged1) of
            Inr response \<Rightarrow>
              if r_success response
              then [\<lparr>m_id = reply_id fresh0, m_role = Assistant, m_content = r_content response,
                      m_timestamp = T_date (Date (reply_time fresh0)),
                      m_model = Some (am_name gpt35),
                      m_tokens = usage_tokens (r_usage response),
                      m_files = Some (uploadedFiles staged1)\<rparr>]
              else []
          | Inl m \<Rightarrow> [])"
    using n f by auto
  from mock_gateway_succeeds [of request gpt35 "parameters staged1"]
  show ?thesis unfolding m by (auto simp add: staged1_sel)
qed

end
